theory Spec2Isabelle
  imports Complex_Main
begin

section \<open>Ride booking server: code generator\<close>

text \<open>
  The server's \<^verbatim>\<open>generateRideCode(length)\<close> appends, \<open>length\<close> times, the character
  \<^verbatim>\<open>chars.charAt(Math.floor(Math.random() * chars.length))\<close> to an empty string.
  The random source is the sequence \<open>rnd\<close> of the values the successive calls of
  \<^verbatim>\<open>Math.random()\<close> return (the \<open>i\<close>-th loop iteration makes the \<open>i\<close>-th call).
  \<^verbatim>\<open>charAt\<close> returns the empty string for a position outside the string.
\<close>

definition chars :: string where
  "chars = ''ABCDEFGHIJKLMNOPQRSTUVWXYZ0123456789''"

definition charAt :: "string \<Rightarrow> int \<Rightarrow> string" where
  "charAt s i = (if 0 \<le> i \<and> i < int (length s) then [s ! nat i] else [])"

function gen_loop :: "(nat \<Rightarrow> real) \<Rightarrow> nat \<Rightarrow> int \<Rightarrow> string \<Rightarrow> string" where
  "gen_loop rnd i len code =
     (if int i < len
      then gen_loop rnd (Suc i) len (code @ charAt chars \<lfloor>rnd i * real (length chars)\<rfloor>)
      else code)"
  by pat_completeness auto
termination
  by (relation "measure (\<lambda>(rnd, i, len, code). nat (len - int i))") auto

declare gen_loop.simps [simp del]

definition generateRideCode :: "(nat \<Rightarrow> real) \<Rightarrow> int \<Rightarrow> string" where
  "generateRideCode rnd len = gen_loop rnd 0 len []"



section \<open>Data model\<close>

text \<open>
  The tables of the schema, one record per row type. Primary keys (\<^verbatim>\<open>uuid\<close> columns
  filled by \<^verbatim>\<open>gen_random_uuid()\<close>) are natural numbers handed out by the store's counter
  \<open>next_id\<close>. User identifiers refer to the identity provider's table, which is outside the
  server. Nullable columns are options. \<^verbatim>\<open>jsonb\<close> columns are lists of key/value pairs.
\<close>

type_synonym uuid = nat

datatype json = JNull | JInt int | JStr string

record ride =
  r_id :: uuid
  r_created_by :: uuid
  r_title :: string
  r_origin :: string
  r_destination :: string
  r_departure_time :: string
  total_seats :: int
  seats_left :: int
  price_per_seat :: int
  ride_code :: string
  r_status :: string

record participant =
  p_id :: uuid
  p_ride_id :: uuid
  p_user_id :: uuid
  join_code :: string
  amount_due :: "int option"
  amount_paid :: int
  paid :: bool
  p_stripe_session_id :: "string option"
  payment_intent_id :: "string option"

record payment =
  pay_id :: uuid
  pay_user_id :: uuid
  pay_ride_id :: uuid
  pay_amount :: int
  pay_currency :: string
  pay_stripe_session_id :: "string option"
  stripe_payment_intent_id :: "string option"
  pay_status :: string
  pay_metadata :: "(string \<times> json) list"

record ride_code_row =
  rc_id :: uuid
  rc_ride_id :: uuid
  rc_code :: string

record notification =
  n_user_id :: uuid
  n_type :: string
  n_title :: string
  n_body :: string
  n_ride_id :: uuid
  n_meta :: "(string \<times> json) list"
  n_read :: bool

record history_entry =
  h_user_id :: uuid
  h_ride_id :: uuid
  h_action :: string
  h_meta :: "(string \<times> json) list"

record store =
  rides :: "ride list"
  ride_participants :: "participant list"
  payments :: "payment list"
  ride_codes :: "ride_code_row list"
  notifications :: "notification list"
  history :: "history_entry list"
  next_id :: uuid

definition empty_store :: store where
  "empty_store = \<lparr>rides = [], ride_participants = [], payments = [], ride_codes = [],
     notifications = [], history = [], next_id = 0\<rparr>"

section \<open>Data store operations\<close>

text \<open>
  The queries the handlers send to the data store. A query never throws: it answers
  with a result or with an error value (\<open>None\<close> here), which the caller inspects or
  ignores as the source does. A write fails exactly when it violates a
  \<^verbatim>\<open>UNIQUE\<close> or \<^verbatim>\<open>REFERENCES rides(id)\<close> constraint of the schema.
\<close>

definition single :: "'a list \<Rightarrow> 'a option" where
  \<comment> \<open>\<^verbatim>\<open>.single()\<close>: the row when exactly one row matches, an error otherwise.\<close>
  "single matching = (case matching of [row] \<Rightarrow> Some row | _ \<Rightarrow> None)"

definition ride_exists :: "store \<Rightarrow> uuid \<Rightarrow> bool" where
  "ride_exists s rideId = (rideId \<in> set (map r_id (rides s)))"

definition select_ride :: "store \<Rightarrow> uuid \<Rightarrow> ride option" where
  \<comment> \<open>\<^verbatim>\<open>from("rides").select("*").eq("id", rideId).single()\<close>\<close>
  "select_ride s rideId = single (filter (\<lambda>r. r_id r = rideId) (rides s))"

definition select_participant :: "store \<Rightarrow> uuid \<Rightarrow> uuid \<Rightarrow> participant option" where
  \<comment> \<open>\<^verbatim>\<open>from("ride_participants").select("*").eq("ride_id", rideId).eq("user_id", userId).single()\<close>\<close>
  "select_participant s rideId userId =
     single (filter (\<lambda>p. p_ride_id p = rideId \<and> p_user_id p = userId) (ride_participants s))"

definition insert_ride :: "store \<Rightarrow> ride \<Rightarrow> (ride \<times> store) option" where
  \<comment> \<open>\<^verbatim>\<open>from("rides").insert({...}).select()\<close>; \<^verbatim>\<open>ride_code text UNIQUE\<close>.
      The row's \<open>r_id\<close> is assigned by the store.\<close>
  "insert_ride s row =
     (if ride_code row \<in> set (map ride_code (rides s)) then None
      else let stored = row\<lparr>r_id := next_id s\<rparr>
           in Some (stored, s\<lparr>rides := rides s @ [stored], next_id := Suc (next_id s)\<rparr>))"

definition insert_participant :: "store \<Rightarrow> participant \<Rightarrow> (participant \<times> store) option" where
  \<comment> \<open>\<^verbatim>\<open>from("ride_participants").insert({...}).select()\<close>;
      \<^verbatim>\<open>UNIQUE(ride_id, user_id)\<close>, \<^verbatim>\<open>ride_id REFERENCES rides(id)\<close>.\<close>
  "insert_participant s row =
     (if (p_ride_id row, p_user_id row) \<in> set (map (\<lambda>p. (p_ride_id p, p_user_id p)) (ride_participants s))
         \<or> \<not> ride_exists s (p_ride_id row)
      then None
      else let stored = row\<lparr>p_id := next_id s\<rparr>
           in Some (stored, s\<lparr>ride_participants := ride_participants s @ [stored],
                               next_id := Suc (next_id s)\<rparr>))"

definition update_seats_left :: "store \<Rightarrow> uuid \<Rightarrow> int \<Rightarrow> store" where
  \<comment> \<open>\<^verbatim>\<open>from("rides").update({seats_left: v}).eq("id", rideId)\<close>\<close>
  "update_seats_left s rideId v =
     s\<lparr>rides := map (\<lambda>r. if r_id r = rideId then r\<lparr>seats_left := v\<rparr> else r) (rides s)\<rparr>"

definition update_participant_paid :: "store \<Rightarrow> uuid \<Rightarrow> string \<Rightarrow> int \<Rightarrow> store" where
  \<comment> \<open>\<^verbatim>\<open>from("ride_participants").update({paid: true, stripe_session_id, amount_paid}).eq("id", id)\<close>\<close>
  "update_participant_paid s pid sessionId amount =
     s\<lparr>ride_participants :=
          map (\<lambda>p. if p_id p = pid
                    then p\<lparr>paid := True, p_stripe_session_id := Some sessionId, amount_paid := amount\<rparr>
                    else p)
              (ride_participants s)\<rparr>"

definition update_payment_completed :: "store \<Rightarrow> string \<Rightarrow> string option \<Rightarrow> store" where
  \<comment> \<open>\<^verbatim>\<open>from("payments").update({status: "completed", stripe_payment_intent_id}).eq("stripe_session_id", sessionId)\<close>\<close>
  "update_payment_completed s sessionId intent =
     s\<lparr>payments :=
          map (\<lambda>p. if pay_stripe_session_id p = Some sessionId
                    then p\<lparr>pay_status := ''completed'', stripe_payment_intent_id := intent\<rparr>
                    else p)
              (payments s)\<rparr>"

definition update_payment_failed :: "store \<Rightarrow> string \<Rightarrow> store" where
  \<comment> \<open>\<^verbatim>\<open>from("payments").update({status: "failed"}).eq("stripe_session_id", sessionId)\<close>\<close>
  "update_payment_failed s sessionId =
     s\<lparr>payments :=
          map (\<lambda>p. if pay_stripe_session_id p = Some sessionId
                    then p\<lparr>pay_status := ''failed''\<rparr>
                    else p)
              (payments s)\<rparr>"

definition insert_payment :: "store \<Rightarrow> payment \<Rightarrow> store option" where
  \<comment> \<open>\<^verbatim>\<open>from("payments").insert({...})\<close>; \<^verbatim>\<open>stripe_session_id text UNIQUE\<close>,
      \<^verbatim>\<open>ride_id REFERENCES rides(id)\<close>.\<close>
  "insert_payment s row =
     (if pay_stripe_session_id row \<in> set (map pay_stripe_session_id (payments s))
         \<or> \<not> ride_exists s (pay_ride_id row)
      then None
      else Some (s\<lparr>payments := payments s @ [row\<lparr>pay_id := next_id s\<rparr>],
                   next_id := Suc (next_id s)\<rparr>))"

definition insert_ride_code :: "store \<Rightarrow> uuid \<Rightarrow> string \<Rightarrow> store option" where
  \<comment> \<open>\<^verbatim>\<open>from("ride_codes").insert({ride_id, code})\<close>; \<^verbatim>\<open>ride_id\<close> and \<^verbatim>\<open>code\<close>
      are both \<^verbatim>\<open>UNIQUE\<close>, \<^verbatim>\<open>ride_id REFERENCES rides(id)\<close>.\<close>
  "insert_ride_code s rideId code =
     (if rideId \<in> set (map rc_ride_id (ride_codes s))
         \<or> code \<in> set (map rc_code (ride_codes s))
         \<or> \<not> ride_exists s rideId
      then None
      else Some (s\<lparr>ride_codes := ride_codes s @ [\<lparr>rc_id = next_id s, rc_ride_id = rideId, rc_code = code\<rparr>],
                   next_id := Suc (next_id s)\<rparr>))"

definition upsert_ride_code :: "store \<Rightarrow> uuid \<Rightarrow> string \<Rightarrow> store option" where
  \<comment> \<open>\<^verbatim>\<open>from("ride_codes").upsert({ride_id, code})\<close>. The call names no conflict column, so
      the store resolves conflicts on the primary key \<^verbatim>\<open>id\<close>. The row carries no id and gets
      a new one, which matches no stored row: the upsert is an insert, refused when the
      ride already has a code row (\<^verbatim>\<open>ride_id\<close> is \<^verbatim>\<open>UNIQUE\<close>), when the code is held
      (\<^verbatim>\<open>code\<close> is \<^verbatim>\<open>UNIQUE\<close>) or when the ride does not exist.\<close>
  "upsert_ride_code s rideId code =
     (if rideId \<in> set (map rc_ride_id (ride_codes s))
         \<or> code \<in> set (map rc_code (ride_codes s))
         \<or> \<not> ride_exists s rideId
      then None
      else Some (s\<lparr>ride_codes := ride_codes s @ [\<lparr>rc_id = next_id s, rc_ride_id = rideId, rc_code = code\<rparr>],
                   next_id := Suc (next_id s)\<rparr>))"

definition insert_notification :: "store \<Rightarrow> notification \<Rightarrow> store option" where
  \<comment> \<open>\<^verbatim>\<open>from("notifications").insert({...})\<close>; \<^verbatim>\<open>ride_id REFERENCES rides(id)\<close>.\<close>
  "insert_notification s row =
     (if ride_exists s (n_ride_id row)
      then Some (s\<lparr>notifications := notifications s @ [row]\<rparr>)
      else None)"

definition insert_history :: "store \<Rightarrow> history_entry \<Rightarrow> store option" where
  \<comment> \<open>\<^verbatim>\<open>from("history").insert({...})\<close>; \<^verbatim>\<open>ride_id REFERENCES rides(id)\<close>.\<close>
  "insert_history s row =
     (if ride_exists s (h_ride_id row)
      then Some (s\<lparr>history := history s @ [row]\<rparr>)
      else None)"

definition ignore_error :: "store \<Rightarrow> store option \<Rightarrow> store" where
  \<comment> \<open>An awaited write whose error value the caller does not look at.\<close>
  "ignore_error s result = (case result of None \<Rightarrow> s | Some s' \<Rightarrow> s')"

section \<open>Requests, responses and the environment\<close>

text \<open>
  A request field that is missing or falsy where the handler tests it with \<^verbatim>\<open>!field\<close> is
  \<open>None\<close> for identifiers; a text field is also falsy when empty and a number when zero.
  The environment of one request holds what the handler does not control: the values
  \<^verbatim>\<open>Math.random()\<close> returns, whether the notification and history inserts throw, and
  the configured webhook secret. A webhook request is the text of its body and its
  \<^verbatim>\<open>stripe-signature\<close> header; what a handler finds in \<^verbatim>\<open>req.body\<close> is either those
  bytes (\<open>RawBody\<close>) or the object a JSON parser made of them (\<open>ParsedBody\<close>, named by
  the text it was parsed from).
\<close>

datatype js_exception = ReferenceError string | StoreUnreachable

datatype body =
    ErrorBody string
  | Text string
  | CheckoutOk string string
  | SessionCompleted "uuid option" "uuid option"
  | SessionStatus string
  | Received
  | CreateOk ride string
  | JoinOk participant string

datatype response = Response nat body

record env =
  math_random :: "nat \<Rightarrow> real"
  notifications_insert_throws :: bool
  history_insert_throws :: bool
  webhook_secret :: string

record create_req =
  c_userId :: "uuid option"
  c_title :: "string option"
  c_origin :: "string option"
  c_destination :: "string option"
  c_departureTime :: "string option"
  c_totalSeats :: "int option"
  c_pricePerSeat :: "int option"

record join_req =
  j_rideId :: "uuid option"
  j_userId :: "uuid option"
  j_amountDue :: "int option"

record checkout_req =
  ck_rideId :: "uuid option"
  ck_userId :: "uuid option"
  ck_amount :: "int option"
  ck_currency :: "string option"
  ck_quantity :: "int option"

record stripe_session =
  ss_id :: string
  payment_status :: string
  payment_intent :: "string option"
  md_rideId :: "uuid option"
  md_userId :: "uuid option"

record stripe_event =
  ev_type :: string
  ev_object :: stripe_session

record webhook_req =
  wh_body :: string
  wh_signature :: "string option"

datatype req_body = RawBody string | ParsedBody string

definition falsy_str :: "string option \<Rightarrow> bool" where
  "falsy_str v = (v = None \<or> v = Some [])"

definition falsy_int :: "int option \<Rightarrow> bool" where
  "falsy_int v = (v = None \<or> v = Some 0)"

definition or_else :: "int option \<Rightarrow> int \<Rightarrow> int" where
  \<comment> \<open>\<^verbatim>\<open>a || d\<close> on a number that may be missing\<close>
  "or_else a d = (case a of None \<Rightarrow> d | Some v \<Rightarrow> if v = 0 then d else v)"

definition json_of_int_option :: "int option \<Rightarrow> json" where
  "json_of_int_option v = (case v of None \<Rightarrow> JNull | Some n \<Rightarrow> JInt n)"

section \<open>Notification and history side effects\<close>

definition notifications_insert :: "env \<Rightarrow> store \<Rightarrow> notification \<Rightarrow> js_exception + store" where
  "notifications_insert e s row =
     (if notifications_insert_throws e then Inl StoreUnreachable
      else Inr (ignore_error s (insert_notification s row)))"

definition history_insert :: "env \<Rightarrow> store \<Rightarrow> history_entry \<Rightarrow> js_exception + store" where
  "history_insert e s row =
     (if history_insert_throws e then Inl StoreUnreachable
      else Inr (ignore_error s (insert_history s row)))"

definition createNotification ::
  "env \<Rightarrow> store \<Rightarrow> uuid \<Rightarrow> string \<Rightarrow> string \<Rightarrow> string \<Rightarrow> uuid \<Rightarrow> (string \<times> json) list \<Rightarrow> store" where
  \<comment> \<open>\<^verbatim>\<open>try { await insert } catch (error) { console.error(...) }\<close>\<close>
  "createNotification e s userId type title body' rideId meta =
     (case notifications_insert e s
             \<lparr>n_user_id = userId, n_type = type, n_title = title, n_body = body',
              n_ride_id = rideId, n_meta = meta, n_read = False\<rparr> of
        Inl error \<Rightarrow> s
      | Inr s' \<Rightarrow> s')"

definition logUserAction ::
  "env \<Rightarrow> store \<Rightarrow> uuid \<Rightarrow> string \<Rightarrow> uuid \<Rightarrow> (string \<times> json) list \<Rightarrow> store" where
  \<comment> \<open>\<^verbatim>\<open>try { await insert } catch (error) { console.error(...) }\<close>\<close>
  "logUserAction e s userId action rideId meta =
     (case history_insert e s
             \<lparr>h_user_id = userId, h_ride_id = rideId, h_action = action, h_meta = meta\<rparr> of
        Inl error \<Rightarrow> s
      | Inr s' \<Rightarrow> s')"

definition createHistoryEntry ::
  "env \<Rightarrow> store \<Rightarrow> uuid \<Rightarrow> string \<Rightarrow> uuid \<Rightarrow> (string \<times> json) list \<Rightarrow> js_exception + store" where
  \<comment> \<open>The ride handlers call \<^verbatim>\<open>createHistoryEntry\<close>, which no module defines or imports
      (the history helper is named \<^verbatim>\<open>logUserAction\<close>): evaluating the call throws.\<close>
  "createHistoryEntry e s userId action rideId meta =
     Inl (ReferenceError ''createHistoryEntry is not defined'')"

section \<open>Handlers\<close>

subsection \<open>POST /api/stripe/create-checkout-session\<close>

definition post_create_checkout_session ::
  "(string \<times> string) option \<Rightarrow> store \<Rightarrow> checkout_req \<Rightarrow> response \<times> store" where
  \<comment> \<open>\<open>created\<close> is the payment provider's answer to \<^verbatim>\<open>stripe.checkout.sessions.create\<close>:
      the new session's id and url, or \<open>None\<close> when the call throws.\<close>
  "post_create_checkout_session created s req =
     (case (ck_rideId req, ck_userId req) of
        (Some rideId, Some userId) \<Rightarrow>
          if falsy_int (ck_amount req)
          then (Response 400 (ErrorBody ''Missing required parameters''), s)
          else
            let amount = the (ck_amount req);
                currency = (case ck_currency req of None \<Rightarrow> ''INR'' | Some c \<Rightarrow> c);
                quantity = (case ck_quantity req of None \<Rightarrow> 1 | Some q \<Rightarrow> q)
            in (case created of
                  None \<Rightarrow> (Response 500 (ErrorBody ''Failed to create checkout session''), s)
                | Some (session_id, session_url) \<Rightarrow>
                    let s1 = ignore_error s (insert_payment s
                               \<lparr>pay_id = 0, pay_user_id = userId, pay_ride_id = rideId,
                                pay_amount = amount, pay_currency = currency,
                                pay_stripe_session_id = Some session_id,
                                stripe_payment_intent_id = None,
                                pay_status = ''pending'',
                                pay_metadata = [(''quantity'', JInt quantity)]\<rparr>)
                    in (Response 200 (CheckoutOk session_url session_id), s1))
      | _ \<Rightarrow> (Response 400 (ErrorBody ''Missing required parameters''), s))"

subsection \<open>Settlement writes shared by the poll and the webhook handlers\<close>

definition settle_participant ::
  "env \<Rightarrow> store \<Rightarrow> participant \<Rightarrow> uuid \<Rightarrow> uuid \<Rightarrow> string \<Rightarrow> string option \<Rightarrow> store" where
  \<comment> \<open>The body of \<^verbatim>\<open>if (participant) { ... }\<close>, the same statements in both handlers.\<close>
  "settle_participant e s participant rideId userId sessionId intent =
     (let s1 = update_participant_paid s (p_id participant) sessionId
                 (or_else (amount_due participant) 0);
          s2 = update_payment_completed s1 sessionId intent;
          rideCode = generateRideCode (math_random e) 6;
          s3 = ignore_error s2 (upsert_ride_code s2 rideId rideCode);
          s4 = createNotification e s3 userId ''payment_received'' ''Booking Confirmed!''
                 (''Your ride code: '' @ rideCode @ '' - Use this to join the ride chat.'')
                 rideId [(''rideCode'', JStr rideCode)];
          s5 = logUserAction e s4 userId ''payment'' rideId
                 [(''amount'', json_of_int_option (amount_due participant)),
                  (''sessionId'', JStr sessionId)]
      in s5)"

subsection \<open>GET /api/stripe/session/:sessionId\<close>

definition get_stripe_session ::
  "(string \<Rightarrow> stripe_session option) \<Rightarrow> env \<Rightarrow> store \<Rightarrow> string \<Rightarrow> response \<times> store" where
  \<comment> \<open>\<open>retrieve\<close> is the payment provider's \<^verbatim>\<open>stripe.checkout.sessions.retrieve\<close>;
      \<open>None\<close> when it throws (a session the provider does not know).\<close>
  "get_stripe_session retrieve e s sessionId =
     (case retrieve sessionId of
        None \<Rightarrow> (Response 500 (ErrorBody ''Failed to retrieve session''), s)
      | Some session \<Rightarrow>
          if payment_status session = ''paid''
          then
            let rideId = md_rideId session; userId = md_userId session in
            (case (rideId, userId) of
               (Some rid, Some uid) \<Rightarrow>
                 (case select_participant s rid uid of
                    Some participant \<Rightarrow>
                      (Response 200 (SessionCompleted rideId userId),
                       settle_participant e s participant rid uid sessionId (payment_intent session))
                  | None \<Rightarrow> (Response 200 (SessionCompleted rideId userId), s))
             | _ \<Rightarrow> (Response 200 (SessionCompleted rideId userId), s))
          else (Response 200 (SessionStatus (payment_status session)), s))"

subsection \<open>POST /api/stripe/webhook\<close>

definition express_json :: "string \<Rightarrow> req_body" where
  \<comment> \<open>\<^verbatim>\<open>app.use(express.json())\<close> is installed before every route. When the webhook
      route's own \<^verbatim>\<open>express.raw\<close> runs, the body has been parsed already and is left as
      it is: the handler's \<^verbatim>\<open>req.body\<close> is the parsed object, never the bytes.\<close>
  "express_json sent = ParsedBody sent"

definition constructEvent ::
  "(string \<Rightarrow> string option \<Rightarrow> string \<Rightarrow> stripe_event option) \<Rightarrow>
   req_body \<Rightarrow> string option \<Rightarrow> string \<Rightarrow> stripe_event option" where
  \<comment> \<open>The provider library's \<^verbatim>\<open>stripe.webhooks.constructEvent(payload, sig, secret)\<close>.
      \<open>verify\<close> is its check of the signature header against the bytes of the body and
      the shared secret: the event those bytes encode, or \<open>None\<close> when the check fails.
      It is applied to a payload of bytes only; for any other payload the call throws
      (\<open>None\<close>).\<close>
  "constructEvent verify payload sig secret =
     (case payload of
        RawBody bytes \<Rightarrow> verify bytes sig secret
      | ParsedBody parsed \<Rightarrow> None)"

definition post_stripe_webhook ::
  "(string \<Rightarrow> string option \<Rightarrow> string \<Rightarrow> stripe_event option) \<Rightarrow>
   env \<Rightarrow> store \<Rightarrow> webhook_req \<Rightarrow> response \<times> store" where
  "post_stripe_webhook verify e s req =
     (case constructEvent verify (express_json (wh_body req)) (wh_signature req) (webhook_secret e) of
        None \<Rightarrow> (Response 400 (Text ''Webhook Error''), s)
      | Some event \<Rightarrow>
          let session = ev_object event;
              s1 = (if ev_type event = ''checkout.session.completed''
                    then (case (md_rideId session, md_userId session) of
                            (Some rideId, Some userId) \<Rightarrow>
                              (case select_participant s rideId userId of
                                 Some participant \<Rightarrow>
                                   settle_participant e s participant rideId userId
                                     (ss_id session) (payment_intent session)
                               | None \<Rightarrow> s)
                          | _ \<Rightarrow> s)
                    else s);
              s2 = (if ev_type event = ''checkout.session.expired''
                    then update_payment_failed s1 (ss_id session)
                    else s1)
          in (Response 200 Received, s2))"

subsection \<open>POST /api/rides/create\<close>

definition post_rides_create :: "env \<Rightarrow> store \<Rightarrow> create_req \<Rightarrow> response \<times> store" where
  "post_rides_create e s req =
     (if c_userId req = None \<or> falsy_str (c_title req) \<or> falsy_str (c_origin req)
         \<or> falsy_str (c_destination req) \<or> falsy_str (c_departureTime req)
         \<or> falsy_int (c_totalSeats req) \<or> c_pricePerSeat req = None
      then (Response 400 (ErrorBody ''Missing required fields''), s)
      else
        let userId = the (c_userId req);
            origin = the (c_origin req);
            destination = the (c_destination req);
            totalSeats = the (c_totalSeats req);
            pricePerSeat = the (c_pricePerSeat req);
            rideCode = generateRideCode (math_random e) 6
        in (case insert_ride s
                   \<lparr>r_id = 0, r_created_by = userId, r_title = the (c_title req),
                    r_origin = origin, r_destination = destination,
                    r_departure_time = the (c_departureTime req),
                    total_seats = totalSeats, seats_left = totalSeats,
                    price_per_seat = pricePerSeat, ride_code = rideCode,
                    r_status = ''active''\<rparr> of
              None \<Rightarrow> (Response 500 (ErrorBody ''Failed to create ride''), s)
            | Some (row, s1) \<Rightarrow>
                let rideId = r_id row;
                    s2 = ignore_error s1 (insert_ride_code s1 rideId rideCode);
                    s3 = createNotification e s2 userId ''ride_created'' ''Ride Created!''
                           (''Your ride from '' @ origin @ '' to '' @ destination @ '' is now live.'')
                           rideId
                           [(''origin'', JStr origin), (''destination'', JStr destination),
                            (''rideCode'', JStr rideCode)]
                in (case createHistoryEntry e s3 userId ''create_ride'' rideId
                           [(''origin'', JStr origin), (''destination'', JStr destination),
                            (''totalSeats'', JInt totalSeats), (''pricePerSeat'', JInt pricePerSeat)] of
                      Inl error \<Rightarrow> (Response 500 (ErrorBody ''Failed to create ride''), s3)
                    | Inr s4 \<Rightarrow> (Response 200 (CreateOk row rideCode), s4))))"

subsection \<open>POST /api/rides/join\<close>

definition post_rides_join :: "env \<Rightarrow> store \<Rightarrow> join_req \<Rightarrow> response \<times> store" where
  "post_rides_join e s req =
     (case (j_rideId req, j_userId req) of
        (Some rideId, Some userId) \<Rightarrow>
          (case select_ride s rideId of
             None \<Rightarrow> (Response 404 (ErrorBody ''Ride not found''), s)
           | Some rideData \<Rightarrow>
               if seats_left rideData \<le> 0
               then (Response 400 (ErrorBody ''No seats available''), s)
               else
                 let joinCode = generateRideCode (math_random e) 8 in
                 (case insert_participant s
                         \<lparr>p_id = 0, p_ride_id = rideId, p_user_id = userId, join_code = joinCode,
                          amount_due = Some (or_else (j_amountDue req) (price_per_seat rideData)),
                          amount_paid = 0, paid = False,
                          p_stripe_session_id = None, payment_intent_id = None\<rparr> of
                    None \<Rightarrow> (Response 500 (ErrorBody ''Failed to join ride''), s)
                  | Some (participantData, s1) \<Rightarrow>
                      let s2 = update_seats_left s1 rideId (seats_left rideData - 1);
                          s3 = createNotification e s2 userId ''ride_joined'' ''Joined Ride!''
                                 (''You have joined a ride from '' @ r_origin rideData @ '' to ''
                                    @ r_destination rideData @ ''.'')
                                 rideId
                                 [(''origin'', JStr (r_origin rideData)),
                                  (''destination'', JStr (r_destination rideData))]
                      in (case createHistoryEntry e s3 userId ''join_ride'' rideId
                                 [(''amountDue'',
                                   JInt (or_else (j_amountDue req) (price_per_seat rideData)))] of
                            Inl error \<Rightarrow> (Response 500 (ErrorBody ''Failed to join ride''), s3)
                          | Inr s4 \<Rightarrow> (Response 200 (JoinOk participantData joinCode), s4))))
      | _ \<Rightarrow> (Response 400 (ErrorBody ''Missing required fields''), s))"

subsection \<open>The join handler, one store access at a time\<close>

text \<open>
  Between two awaited store accesses of one request the server handles other requests.
  \<open>join_step\<close> runs the join handler up to its next store access; the task records how
  far the request has come and what it holds in local variables (\<open>rideData\<close> is the
  row read at the start). \<open>run_schedule\<close> interleaves several join requests in a given
  order of steps.
\<close>

datatype join_task =
    JoinStart join_req
  | JoinSelected join_req uuid uuid ride
  | JoinInserted join_req uuid uuid ride string participant
  | JoinUpdated join_req uuid uuid ride string participant
  | JoinDone response

fun join_step :: "env \<Rightarrow> store \<Rightarrow> join_task \<Rightarrow> join_task \<times> store" where
  "join_step e s (JoinStart req) =
     (case (j_rideId req, j_userId req) of
        (Some rideId, Some userId) \<Rightarrow>
          (case select_ride s rideId of
             None \<Rightarrow> (JoinDone (Response 404 (ErrorBody ''Ride not found'')), s)
           | Some rideData \<Rightarrow>
               if seats_left rideData \<le> 0
               then (JoinDone (Response 400 (ErrorBody ''No seats available'')), s)
               else (JoinSelected req rideId userId rideData, s))
      | _ \<Rightarrow> (JoinDone (Response 400 (ErrorBody ''Missing required fields'')), s))"
| "join_step e s (JoinSelected req rideId userId rideData) =
     (let joinCode = generateRideCode (math_random e) 8 in
      (case insert_participant s
              \<lparr>p_id = 0, p_ride_id = rideId, p_user_id = userId, join_code = joinCode,
               amount_due = Some (or_else (j_amountDue req) (price_per_seat rideData)),
               amount_paid = 0, paid = False,
               p_stripe_session_id = None, payment_intent_id = None\<rparr> of
         None \<Rightarrow> (JoinDone (Response 500 (ErrorBody ''Failed to join ride'')), s)
       | Some (participantData, s1) \<Rightarrow>
           (JoinInserted req rideId userId rideData joinCode participantData, s1)))"
| "join_step e s (JoinInserted req rideId userId rideData joinCode participantData) =
     (JoinUpdated req rideId userId rideData joinCode participantData,
      update_seats_left s rideId (seats_left rideData - 1))"
| "join_step e s (JoinUpdated req rideId userId rideData joinCode participantData) =
     (let s3 = createNotification e s userId ''ride_joined'' ''Joined Ride!''
                 (''You have joined a ride from '' @ r_origin rideData @ '' to ''
                    @ r_destination rideData @ ''.'')
                 rideId
                 [(''origin'', JStr (r_origin rideData)),
                  (''destination'', JStr (r_destination rideData))]
      in (case createHistoryEntry e s3 userId ''join_ride'' rideId
                 [(''amountDue'', JInt (or_else (j_amountDue req) (price_per_seat rideData)))] of
            Inl error \<Rightarrow> (JoinDone (Response 500 (ErrorBody ''Failed to join ride'')), s3)
          | Inr s4 \<Rightarrow> (JoinDone (Response 200 (JoinOk participantData joinCode)), s4)))"
| "join_step e s (JoinDone r) = (JoinDone r, s)"

fun join_steps :: "nat \<Rightarrow> env \<Rightarrow> store \<Rightarrow> join_task \<Rightarrow> join_task \<times> store" where
  "join_steps 0 e s t = (t, s)"
| "join_steps (Suc n) e s t = (case join_step e s t of (t', s') \<Rightarrow> join_steps n e s' t')"

fun run_schedule :: "env \<Rightarrow> store \<Rightarrow> join_task list \<Rightarrow> nat list \<Rightarrow> join_task list \<times> store" where
  "run_schedule e s tasks [] = (tasks, s)"
| "run_schedule e s tasks (k # ks) =
     (if k < length tasks
      then (case join_step e s (tasks ! k) of (t', s') \<Rightarrow> run_schedule e s' (tasks[k := t']) ks)
      else run_schedule e s tasks ks)"


section \<open>A worked scenario\<close>

text \<open>
  One ride with a single seat, created by user 7; user 10 joins it, opens a checkout
  session \<^verbatim>\<open>cs_1\<close> and pays. The stores below are the states the handlers produce along
  the way (shown by the evaluation lemmas further down).
\<close>

definition ex_env :: env where
  "ex_env = \<lparr>math_random = (\<lambda>i. 0), notifications_insert_throws = False,
     history_insert_throws = False, webhook_secret = ''whsec_test''\<rparr>"

definition ex_env2 :: env where
  "ex_env2 = \<lparr>math_random = (\<lambda>i. 1 / 2), notifications_insert_throws = False,
     history_insert_throws = False, webhook_secret = ''whsec_test''\<rparr>"

definition ex_create_req :: create_req where
  "ex_create_req = \<lparr>c_userId = Some 7, c_title = Some ''Airport run'', c_origin = Some ''Pune'',
     c_destination = Some ''Mumbai'', c_departureTime = Some ''2024-01-01T10:00:00Z'',
     c_totalSeats = Some 1, c_pricePerSeat = Some 500\<rparr>"

definition ex_join_a :: join_req where
  "ex_join_a = \<lparr>j_rideId = Some 0, j_userId = Some 10, j_amountDue = None\<rparr>"

definition ex_join_b :: join_req where
  "ex_join_b = \<lparr>j_rideId = Some 0, j_userId = Some 11, j_amountDue = None\<rparr>"

definition ex_checkout_a :: checkout_req where
  "ex_checkout_a = \<lparr>ck_rideId = Some 0, ck_userId = Some 10, ck_amount = Some 500,
     ck_currency = None, ck_quantity = None\<rparr>"

definition ex_session :: stripe_session where
  "ex_session = \<lparr>ss_id = ''cs_1'', payment_status = ''paid'', payment_intent = Some ''pi_1'',
     md_rideId = Some 0, md_userId = Some 10\<rparr>"

definition ex_retrieve :: "string \<Rightarrow> stripe_session option" where
  "ex_retrieve sessionId = (if sessionId = ''cs_1'' then Some ex_session else None)"

definition ex_verify :: "string \<Rightarrow> string option \<Rightarrow> string \<Rightarrow> stripe_event option" where
  \<comment> \<open>A stand-in for the provider's signature check: the header must be the secret
      followed by the body; every verified body is the completion of \<^verbatim>\<open>cs_1\<close>.\<close>
  "ex_verify payload sig secret =
     (if sig = Some (secret @ payload)
      then Some \<lparr>ev_type = ''checkout.session.completed'', ev_object = ex_session\<rparr>
      else None)"

definition ex_webhook_signed :: webhook_req where
  \<comment> \<open>A request whose header passes the stand-in check.\<close>
  "ex_webhook_signed = \<lparr>wh_body = ''{}'', wh_signature = Some ''whsec_test{}''\<rparr>"

definition ex_webhook_forged :: webhook_req where
  "ex_webhook_forged = \<lparr>wh_body = ''{}'', wh_signature = Some ''forged''\<rparr>"

definition ex_ride :: ride where
  "ex_ride = \<lparr>r_id = 0, r_created_by = 7, r_title = ''Airport run'', r_origin = ''Pune'',
     r_destination = ''Mumbai'', r_departure_time = ''2024-01-01T10:00:00Z'', total_seats = 1,
     seats_left = 1, price_per_seat = 500, ride_code = ''AAAAAA'', r_status = ''active''\<rparr>"

definition ex_notif_created :: notification where
  "ex_notif_created = \<lparr>n_user_id = 7, n_type = ''ride_created'', n_title = ''Ride Created!'',
     n_body = ''Your ride from Pune to Mumbai is now live.'', n_ride_id = 0,
     n_meta = [(''origin'', JStr ''Pune''), (''destination'', JStr ''Mumbai''),
               (''rideCode'', JStr ''AAAAAA'')],
     n_read = False\<rparr>"

definition ex_notif_joined :: "uuid \<Rightarrow> notification" where
  "ex_notif_joined userId = \<lparr>n_user_id = userId, n_type = ''ride_joined'', n_title = ''Joined Ride!'',
     n_body = ''You have joined a ride from Pune to Mumbai.'', n_ride_id = 0,
     n_meta = [(''origin'', JStr ''Pune''), (''destination'', JStr ''Mumbai'')],
     n_read = False\<rparr>"

definition ex_notif_paid :: "string \<Rightarrow> notification" where
  "ex_notif_paid code = \<lparr>n_user_id = 10, n_type = ''payment_received'',
     n_title = ''Booking Confirmed!'',
     n_body = ''Your ride code: '' @ code @ '' - Use this to join the ride chat.'', n_ride_id = 0,
     n_meta = [(''rideCode'', JStr code)], n_read = False\<rparr>"

definition ex_history_paid :: history_entry where
  "ex_history_paid = \<lparr>h_user_id = 10, h_ride_id = 0, h_action = ''payment'',
     h_meta = [(''amount'', JInt 500), (''sessionId'', JStr ''cs_1'')]\<rparr>"

definition ex_participant :: "uuid \<Rightarrow> uuid \<Rightarrow> participant" where
  "ex_participant pid userId = \<lparr>p_id = pid, p_ride_id = 0, p_user_id = userId,
     join_code = ''AAAAAAAA'', amount_due = Some 500, amount_paid = 0, paid = False,
     p_stripe_session_id = None, payment_intent_id = None\<rparr>"

definition ex_payment :: payment where
  "ex_payment = \<lparr>pay_id = 3, pay_user_id = 10, pay_ride_id = 0, pay_amount = 500,
     pay_currency = ''INR'', pay_stripe_session_id = Some ''cs_1'',
     stripe_payment_intent_id = None, pay_status = ''pending'',
     pay_metadata = [(''quantity'', JInt 1)]\<rparr>"

definition ex_store_created :: store where
  "ex_store_created = \<lparr>rides = [ex_ride], ride_participants = [], payments = [],
     ride_codes = [\<lparr>rc_id = 1, rc_ride_id = 0, rc_code = ''AAAAAA''\<rparr>],
     notifications = [ex_notif_created], history = [], next_id = 2\<rparr>"

definition ex_store_joined :: store where
  "ex_store_joined = \<lparr>rides = [ex_ride\<lparr>seats_left := 0\<rparr>],
     ride_participants = [ex_participant 2 10], payments = [],
     ride_codes = [\<lparr>rc_id = 1, rc_ride_id = 0, rc_code = ''AAAAAA''\<rparr>],
     notifications = [ex_notif_created, ex_notif_joined 10], history = [], next_id = 3\<rparr>"

definition ex_store_pending :: store where
  "ex_store_pending = ex_store_joined\<lparr>payments := [ex_payment], next_id := 4\<rparr>"

definition ex_store_settled :: store where
  "ex_store_settled = ex_store_pending
     \<lparr>ride_participants :=
        [(ex_participant 2 10)\<lparr>paid := True, p_stripe_session_id := Some ''cs_1'', amount_paid := 500\<rparr>],
      payments := [ex_payment\<lparr>pay_status := ''completed'', stripe_payment_intent_id := Some ''pi_1''\<rparr>],
      notifications := [ex_notif_created, ex_notif_joined 10, ex_notif_paid ''AAAAAA''],
      history := [ex_history_paid]\<rparr>"

definition ex_store_orphan :: store where
  \<comment> \<open>User 10 opened a checkout session for the ride without having joined it.\<close>
  "ex_store_orphan = ex_store_created\<lparr>payments := [ex_payment\<lparr>pay_id := 2\<rparr>], next_id := 3\<rparr>"

definition ex_session_stray :: stripe_session where
  \<comment> \<open>A paid provider session for the same ride and user that has no payment row.\<close>
  "ex_session_stray = ex_session\<lparr>ss_id := ''cs_9''\<rparr>"

definition ex_retrieve_stray :: "string \<Rightarrow> stripe_session option" where
  "ex_retrieve_stray sessionId = (if sessionId = ''cs_9'' then Some ex_session_stray else None)"

definition ex_store_resettled :: store where
  \<comment> \<open>The store after \<^verbatim>\<open>cs_1\<close> is settled a second time, with random values \<open>1 / 2\<close>.\<close>
  "ex_store_resettled = ex_store_settled
     \<lparr>notifications := [ex_notif_created, ex_notif_joined 10, ex_notif_paid ''AAAAAA'',
                        ex_notif_paid ''SSSSSS''],
      history := [ex_history_paid, ex_history_paid]\<rparr>"

definition ex_create_negative :: create_req where
  "ex_create_negative = ex_create_req\<lparr>c_title := Some ''Return run'', c_totalSeats := Some (- 1)\<rparr>"

definition ex_ride_negative :: ride where
  "ex_ride_negative = \<lparr>r_id = 3, r_created_by = 7, r_title = ''Return run'', r_origin = ''Pune'',
     r_destination = ''Mumbai'', r_departure_time = ''2024-01-01T10:00:00Z'', total_seats = - 1,
     seats_left = - 1, price_per_seat = 500, ride_code = ''SSSSSS'', r_status = ''active''\<rparr>"

definition ex_store_mixed :: store where
  \<comment> \<open>The joined store after user 7 creates a second ride with \<open>totalSeats = -1\<close>.\<close>
  "ex_store_mixed = \<lparr>rides = [ex_ride\<lparr>seats_left := 0\<rparr>, ex_ride_negative],
     ride_participants = [ex_participant 2 10], payments = [],
     ride_codes = [\<lparr>rc_id = 1, rc_ride_id = 0, rc_code = ''AAAAAA''\<rparr>,
                   \<lparr>rc_id = 4, rc_ride_id = 3, rc_code = ''SSSSSS''\<rparr>],
     notifications = [ex_notif_created, ex_notif_joined 10,
                      ex_notif_created\<lparr>n_ride_id := 3,
                         n_meta := [(''origin'', JStr ''Pune''), (''destination'', JStr ''Mumbai''),
                                    (''rideCode'', JStr ''SSSSSS'')]\<rparr>],
     history = [], next_id = 5\<rparr>"

section \<open>Notions used to state the properties\<close>

definition with_status :: "(uuid \<Rightarrow> string) \<Rightarrow> store \<Rightarrow> store" where
  \<comment> \<open>The same store with the lifecycle status of every ride replaced.\<close>
  "with_status f s = s\<lparr>rides := map (\<lambda>r. r\<lparr>r_status := f (r_id r)\<rparr>) (rides s)\<rparr>"

definition participant_count :: "store \<Rightarrow> uuid \<Rightarrow> nat" where
  "participant_count s rideId =
     length (filter (\<lambda>p. p_ride_id p = rideId) (ride_participants s))"

definition ride_seats_ok :: "store \<Rightarrow> ride \<Rightarrow> bool" where
  \<comment> \<open>\<open>seats_left\<close> never exceeds \<open>total_seats\<close>, the participants of the ride are the
      seats taken, and \<open>seats_left\<close> is not negative unless the ride was created with
      that many seats and nobody could join.\<close>
  "ride_seats_ok s r =
     (seats_left r \<le> total_seats r \<and>
      int (participant_count s (r_id r)) = total_seats r - seats_left r \<and>
      (0 \<le> seats_left r \<or> seats_left r = total_seats r))"

definition seats_invariant :: "store \<Rightarrow> bool" where
  "seats_invariant s = list_all (ride_seats_ok s) (rides s)"

definition keys_wellformed :: "store \<Rightarrow> bool" where
  \<comment> \<open>What the schema's keys give: ride ids are distinct and were handed out by the
      store, and every participant row refers to a ride.\<close>
  "keys_wellformed s =
     (distinct (map r_id (rides s)) \<and>
      list_all (\<lambda>r. r_id r < next_id s) (rides s) \<and>
      list_all (\<lambda>p. ride_exists s (p_ride_id p)) (ride_participants s))"

text \<open>
  The stores the server can be in between two requests. The handlers not modelled here
  (chat messages, listings, marking a notification as read) write neither rides nor
  participants.
\<close>

inductive reachable :: "store \<Rightarrow> bool" where
  reach_empty: "reachable empty_store"
| reach_create: "reachable s \<Longrightarrow> reachable (snd (post_rides_create e s req))"
| reach_join: "reachable s \<Longrightarrow> reachable (snd (post_rides_join e s req))"
| reach_checkout: "reachable s \<Longrightarrow> reachable (snd (post_create_checkout_session created s req))"
| reach_poll: "reachable s \<Longrightarrow> reachable (snd (get_stripe_session retrieve e s sessionId))"
| reach_webhook: "reachable s \<Longrightarrow> reachable (snd (post_stripe_webhook verify e s req))"

definition ex_store_cancelled :: store where
  \<comment> \<open>The created ride, cancelled before anybody joined.\<close>
  "ex_store_cancelled = ex_store_created\<lparr>rides := [ex_ride\<lparr>r_status := ''cancelled''\<rparr>]\<rparr>"

definition ex_store_overbooked :: store where
  \<comment> \<open>The single-seat ride after two interleaved joins.\<close>
  "ex_store_overbooked = \<lparr>rides = [ex_ride\<lparr>seats_left := 0\<rparr>],
     ride_participants = [ex_participant 2 10, ex_participant 3 11], payments = [],
     ride_codes = [\<lparr>rc_id = 1, rc_ride_id = 0, rc_code = ''AAAAAA''\<rparr>],
     notifications = [ex_notif_created, ex_notif_joined 10, ex_notif_joined 11], history = [],
     next_id = 4\<rparr>"

section \<open>What each store operation touches\<close>

lemma ride_exists_rides: "rides s' = rides s \<Longrightarrow> ride_exists s' rideId = ride_exists s rideId"
  by (simp add: ride_exists_def)


lemma select_participant_rows:
  "ride_participants s' = ride_participants s \<Longrightarrow>
   select_participant s' rideId userId = select_participant s rideId userId"
  by (simp add: select_participant_def)

lemma createNotification_frame [simp]:
  "rides (createNotification e s userId type title text rideId meta) = rides s"
  "ride_participants (createNotification e s userId type title text rideId meta) = ride_participants s"
  "payments (createNotification e s userId type title text rideId meta) = payments s"
  "ride_codes (createNotification e s userId type title text rideId meta) = ride_codes s"
  "history (createNotification e s userId type title text rideId meta) = history s"
  "next_id (createNotification e s userId type title text rideId meta) = next_id s"
  by (simp_all add: createNotification_def notifications_insert_def insert_notification_def
        ignore_error_def)


lemma ride_exists_createNotification [simp]:
  "ride_exists (createNotification e s userId type title text rideId meta) rid = ride_exists s rid"
  by (rule ride_exists_rides) simp

lemma createNotification_notifications:
  "notifications (createNotification e s userId type title text rideId meta) =
     (if notifications_insert_throws e \<or> \<not> ride_exists s rideId then notifications s
      else notifications s @
             [\<lparr>n_user_id = userId, n_type = type, n_title = title, n_body = text,
               n_ride_id = rideId, n_meta = meta, n_read = False\<rparr>])"
  by (simp add: createNotification_def notifications_insert_def insert_notification_def
        ignore_error_def)

lemma logUserAction_frame [simp]:
  "rides (logUserAction e s userId action rideId meta) = rides s"
  "ride_participants (logUserAction e s userId action rideId meta) = ride_participants s"
  "payments (logUserAction e s userId action rideId meta) = payments s"
  "ride_codes (logUserAction e s userId action rideId meta) = ride_codes s"
  "notifications (logUserAction e s userId action rideId meta) = notifications s"
  "next_id (logUserAction e s userId action rideId meta) = next_id s"
  by (simp_all add: logUserAction_def history_insert_def insert_history_def ignore_error_def)

lemma upsert_ride_code_frame [simp]:
  "rides (ignore_error s (upsert_ride_code s rideId code)) = rides s"
  "ride_participants (ignore_error s (upsert_ride_code s rideId code)) = ride_participants s"
  "payments (ignore_error s (upsert_ride_code s rideId code)) = payments s"
  "notifications (ignore_error s (upsert_ride_code s rideId code)) = notifications s"
  "history (ignore_error s (upsert_ride_code s rideId code)) = history s"
  by (simp_all add: upsert_ride_code_def ignore_error_def)

lemma upsert_ride_code_refused:
  "rideId \<in> set (map rc_ride_id (ride_codes s)) \<or> \<not> ride_exists s rideId \<Longrightarrow>
   ignore_error s (upsert_ride_code s rideId code) = s"
  by (auto simp: upsert_ride_code_def ignore_error_def)

lemma insert_ride_code_frame [simp]:
  "rides (ignore_error s (insert_ride_code s rideId code)) = rides s"
  "ride_participants (ignore_error s (insert_ride_code s rideId code)) = ride_participants s"
  "payments (ignore_error s (insert_ride_code s rideId code)) = payments s"
  "notifications (ignore_error s (insert_ride_code s rideId code)) = notifications s"
  "history (ignore_error s (insert_ride_code s rideId code)) = history s"
  by (simp_all add: insert_ride_code_def ignore_error_def)

lemma update_participant_paid_frame [simp]:
  "rides (update_participant_paid s pid sessionId amount) = rides s"
  "payments (update_participant_paid s pid sessionId amount) = payments s"
  "ride_codes (update_participant_paid s pid sessionId amount) = ride_codes s"
  "notifications (update_participant_paid s pid sessionId amount) = notifications s"
  "history (update_participant_paid s pid sessionId amount) = history s"
  "next_id (update_participant_paid s pid sessionId amount) = next_id s"
  by (simp_all add: update_participant_paid_def)

lemma update_payment_completed_frame [simp]:
  "rides (update_payment_completed s sessionId intent) = rides s"
  "ride_participants (update_payment_completed s sessionId intent) = ride_participants s"
  "ride_codes (update_payment_completed s sessionId intent) = ride_codes s"
  "notifications (update_payment_completed s sessionId intent) = notifications s"
  "history (update_payment_completed s sessionId intent) = history s"
  "next_id (update_payment_completed s sessionId intent) = next_id s"
  by (simp_all add: update_payment_completed_def)

lemma update_payment_failed_frame [simp]:
  "rides (update_payment_failed s sessionId) = rides s"
  "ride_participants (update_payment_failed s sessionId) = ride_participants s"
  "ride_codes (update_payment_failed s sessionId) = ride_codes s"
  "notifications (update_payment_failed s sessionId) = notifications s"
  "history (update_payment_failed s sessionId) = history s"
  "next_id (update_payment_failed s sessionId) = next_id s"
  by (simp_all add: update_payment_failed_def)

lemma update_seats_left_frame [simp]:
  "ride_participants (update_seats_left s rideId v) = ride_participants s"
  "payments (update_seats_left s rideId v) = payments s"
  "ride_codes (update_seats_left s rideId v) = ride_codes s"
  "notifications (update_seats_left s rideId v) = notifications s"
  "history (update_seats_left s rideId v) = history s"
  "next_id (update_seats_left s rideId v) = next_id s"
  by (simp_all add: update_seats_left_def)

lemma update_unmatched: "\<forall>x \<in> set xs. \<not> P x \<Longrightarrow> map (\<lambda>x. if P x then f x else x) xs = xs"
  by (induction xs) auto

lemma update_twice:
  assumes "\<And>x. P x \<Longrightarrow> P (f x)" and "\<And>x. P x \<Longrightarrow> f (f x) = f x"
  shows "map (\<lambda>x. if P x then f x else x) (map (\<lambda>x. if P x then f x else x) xs) =
         map (\<lambda>x. if P x then f x else x) xs"
  using assms by (induction xs) auto

lemma payments_unmatched:
  assumes "Some sessionId \<notin> set (map pay_stripe_session_id (payments s))"
  shows "map (\<lambda>p. if pay_stripe_session_id p = Some sessionId then f p else p) (payments s) =
         payments s"
proof -
  have "\<forall>p \<in> set (payments s). \<not> pay_stripe_session_id p = Some sessionId"
    using assms by force
  then show ?thesis by (rule update_unmatched)
qed

lemma payments_unmatched_completed:
  "Some sessionId \<notin> set (map pay_stripe_session_id (payments s)) \<Longrightarrow>
   payments (update_payment_completed s sessionId intent) = payments s"
  using payments_unmatched [of sessionId s "\<lambda>p. p\<lparr>pay_status := ''completed'', stripe_payment_intent_id := intent\<rparr>"]
  by (simp add: update_payment_completed_def)

lemma payments_unmatched_failed:
  "Some sessionId \<notin> set (map pay_stripe_session_id (payments s)) \<Longrightarrow>
   payments (update_payment_failed s sessionId) = payments s"
  using payments_unmatched [of sessionId s "\<lambda>p. p\<lparr>pay_status := ''failed''\<rparr>"]
  by (simp add: update_payment_failed_def)

lemma settle_participant_rides [simp]:
  "rides (settle_participant e s participant rideId userId sessionId intent) = rides s"
  by (simp add: settle_participant_def Let_def)

lemma settle_participant_rows:
  "ride_participants (settle_participant e s participant rideId userId sessionId intent) =
     ride_participants (update_participant_paid s (p_id participant) sessionId
                          (or_else (amount_due participant) 0))"
  by (simp add: settle_participant_def Let_def)

lemma settle_participant_payments:
  "payments (settle_participant e s participant rideId userId sessionId intent) =
     payments (update_payment_completed s sessionId intent)"
  by (simp add: settle_participant_def Let_def update_payment_completed_def)

lemma settle_participant_ride_codes:
  "ride_codes (settle_participant e s participant rideId userId sessionId intent) =
     ride_codes (ignore_error s (upsert_ride_code s rideId (generateRideCode (math_random e) 6)))"
  by (simp add: settle_participant_def Let_def upsert_ride_code_def ride_exists_def ignore_error_def)

lemma settle_participant_notifications:
  "notifications (settle_participant e s participant rideId userId sessionId intent) =
     (if notifications_insert_throws e \<or> \<not> ride_exists s rideId then notifications s
      else notifications s @
             [\<lparr>n_user_id = userId, n_type = ''payment_received'', n_title = ''Booking Confirmed!'',
               n_body = ''Your ride code: '' @ generateRideCode (math_random e) 6
                          @ '' - Use this to join the ride chat.'',
               n_ride_id = rideId,
               n_meta = [(''rideCode'', JStr (generateRideCode (math_random e) 6))],
               n_read = False\<rparr>])"
  by (simp add: settle_participant_def Let_def createNotification_notifications
        ride_exists_rides [of "ignore_error s' (upsert_ride_code s' rideId code)" for s' code])

lemma settle_participant_history:
  "history (settle_participant e s participant rideId userId sessionId intent) =
     (if history_insert_throws e \<or> \<not> ride_exists s rideId then history s
      else history s @
             [\<lparr>h_user_id = userId, h_ride_id = rideId, h_action = ''payment'',
               h_meta = [(''amount'', json_of_int_option (amount_due participant)),
                         (''sessionId'', JStr sessionId)]\<rparr>])"
  by (simp add: settle_participant_def Let_def logUserAction_def history_insert_def
        insert_history_def ignore_error_def ride_exists_def upsert_ride_code_def
        createNotification_def notifications_insert_def insert_notification_def)

lemma post_stripe_webhook_rejects:
  "post_stripe_webhook verify e s req = (Response 400 (Text ''Webhook Error''), s)"
  by (simp add: post_stripe_webhook_def constructEvent_def express_json_def)

section \<open>Evaluating the scenario\<close>

lemmas store_ops = single_def ride_exists_def select_ride_def select_participant_def
  insert_ride_def insert_participant_def update_seats_left_def update_participant_paid_def
  update_payment_completed_def update_payment_failed_def insert_payment_def insert_ride_code_def
  upsert_ride_code_def insert_notification_def insert_history_def ignore_error_def
  notifications_insert_def history_insert_def createNotification_def logUserAction_def
  createHistoryEntry_def falsy_str_def falsy_int_def or_else_def json_of_int_option_def

lemmas ex_defs = ex_env_def ex_env2_def ex_create_req_def ex_join_a_def ex_join_b_def
  ex_checkout_a_def ex_session_def ex_retrieve_def ex_verify_def ex_webhook_signed_def
  ex_webhook_forged_def ex_ride_def ex_notif_created_def ex_notif_joined_def ex_notif_paid_def
  ex_history_paid_def ex_participant_def ex_payment_def ex_store_created_def ex_store_joined_def
  ex_store_pending_def ex_store_settled_def ex_store_orphan_def ex_session_stray_def
  ex_retrieve_stray_def ex_store_resettled_def ex_create_negative_def
  ex_ride_negative_def ex_store_mixed_def
  ex_store_cancelled_def ex_store_overbooked_def

lemma generate_zero_6: "generateRideCode (\<lambda>i. 0) 6 = ''AAAAAA''"
  by (simp add: generateRideCode_def gen_loop.simps charAt_def chars_def)

lemma generate_zero_8: "generateRideCode (\<lambda>i. 0) 8 = ''AAAAAAAA''"
  by (simp add: generateRideCode_def gen_loop.simps charAt_def chars_def)

lemma generate_half_6: "generateRideCode (\<lambda>i. 1 / 2) 6 = ''SSSSSS''"
  by (simp add: generateRideCode_def gen_loop.simps charAt_def chars_def)

lemmas generate_ex = generate_zero_6 generate_zero_8 generate_half_6

lemma ex_create_eval:
  "post_rides_create ex_env empty_store ex_create_req =
     (Response 500 (ErrorBody ''Failed to create ride''), ex_store_created)"
  by (simp add: post_rides_create_def empty_store_def ex_defs generate_ex store_ops Let_def)

lemma ex_join_eval:
  "post_rides_join ex_env ex_store_created ex_join_a =
     (Response 500 (ErrorBody ''Failed to join ride''), ex_store_joined)"
  by (simp add: post_rides_join_def ex_defs generate_ex store_ops Let_def)

lemma ex_checkout_eval:
  "post_create_checkout_session (Some (''cs_1'', ''https://pay.example/cs_1'')) ex_store_joined
       ex_checkout_a =
     (Response 200 (CheckoutOk ''https://pay.example/cs_1'' ''cs_1''), ex_store_pending)"
  by (simp add: post_create_checkout_session_def ex_defs store_ops Let_def)

lemma ex_select_participant:
  "select_participant ex_store_pending 0 10 = Some (ex_participant 2 10)"
  by (simp add: ex_defs store_ops)

lemma ex_settle_participant:
  "settle_participant ex_env ex_store_pending (ex_participant 2 10) 0 10 ''cs_1'' (Some ''pi_1'') =
     ex_store_settled"
  unfolding settle_participant_def Let_def
  apply (simp add: ex_defs generate_ex update_participant_paid_def update_payment_completed_def
           or_else_def)
  apply (simp add: upsert_ride_code_def ride_exists_def ignore_error_def)
  apply (simp add: store_ops)
  done

lemma ex_settle_eval:
  "get_stripe_session ex_retrieve ex_env ex_store_pending ''cs_1'' =
     (Response 200 (SessionCompleted (Some 0) (Some 10)), ex_store_settled)"
  by (simp add: get_stripe_session_def ex_retrieve_def ex_session_def ex_select_participant
        ex_settle_participant)

lemma ex_webhook_secret: "webhook_secret ex_env = ''whsec_test''"
  by (simp add: ex_env_def)

lemma ex_select_participant_settled:
  "select_participant ex_store_settled 0 10 =
     Some ((ex_participant 2 10)\<lparr>paid := True, p_stripe_session_id := Some ''cs_1'',
                                  amount_paid := 500\<rparr>)"
  by (simp add: ex_defs store_ops)

lemma ex_settle_participant_again:
  "settle_participant ex_env2 ex_store_settled
       ((ex_participant 2 10)\<lparr>paid := True, p_stripe_session_id := Some ''cs_1'',
                                 amount_paid := 500\<rparr>)
       0 10 ''cs_1'' (Some ''pi_1'') =
     ex_store_resettled"
  unfolding settle_participant_def Let_def
  apply (simp add: ex_defs generate_ex update_participant_paid_def update_payment_completed_def
           or_else_def)
  apply (simp add: upsert_ride_code_def ride_exists_def ignore_error_def)
  apply (simp add: store_ops)
  done

lemma ex_settle_again_eval:
  "get_stripe_session ex_retrieve ex_env2 ex_store_settled ''cs_1'' =
     (Response 200 (SessionCompleted (Some 0) (Some 10)), ex_store_resettled)"
  by (simp add: get_stripe_session_def ex_retrieve_def ex_session_def ex_select_participant_settled
        ex_settle_participant_again)

lemma ex_create_negative_eval:
  "post_rides_create ex_env2 ex_store_joined ex_create_negative =
     (Response 500 (ErrorBody ''Failed to create ride''), ex_store_mixed)"
  by (simp add: post_rides_create_def ex_defs generate_ex store_ops Let_def)

lemma ex_signed_webhook_rejected:
  "ex_verify (wh_body ex_webhook_signed) (wh_signature ex_webhook_signed) (webhook_secret ex_env) =
     Some \<lparr>ev_type = ''checkout.session.completed'', ev_object = ex_session\<rparr> \<and>
   post_stripe_webhook ex_verify ex_env ex_store_pending ex_webhook_signed =
     (Response 400 (Text ''Webhook Error''), ex_store_pending)"
  by (simp add: post_stripe_webhook_rejects ex_verify_def ex_webhook_signed_def ex_webhook_secret)

section \<open>Properties of the code generator\<close>

lemma length_chars: "length chars = 36"
  by (simp add: chars_def)

lemma charAt_random:
  assumes "0 \<le> r" and "r < 1"
  shows "\<exists>c. charAt chars \<lfloor>r * real (length chars)\<rfloor> = [c] \<and> c \<in> set chars"
proof -
  have lo: "0 \<le> \<lfloor>r * 36\<rfloor>" using assms by simp
  have "r * 36 < 36" using assms by simp
  then have hi: "\<lfloor>r * 36\<rfloor> < 36" by (simp add: floor_less_iff)
  have "nat \<lfloor>r * 36\<rfloor> < length chars" using lo hi unfolding length_chars by linarith
  then have mem: "chars ! nat \<lfloor>r * 36\<rfloor> \<in> set chars"
    by (rule nth_mem)
  have "charAt chars \<lfloor>r * real (length chars)\<rfloor> = [chars ! nat \<lfloor>r * 36\<rfloor>]"
    using lo hi by (simp add: charAt_def length_chars)
  with mem show ?thesis by blast
qed

lemma gen_loop_props:
  "\<forall>k. 0 \<le> rand k \<and> rand k < 1 \<Longrightarrow> int i \<le> len \<Longrightarrow>
     length (gen_loop rand i len code) = length code + nat (len - int i) \<and>
     set (gen_loop rand i len code) \<subseteq> set code \<union> set chars"
proof (induction rand i len code rule: gen_loop.induct)
  case (1 rand i len code)
  show ?case
  proof (cases "int i < len")
    case True
    have "0 \<le> rand i" and "rand i < 1" using "1.prems"(1) by simp_all
    from charAt_random [OF this]
    obtain c where c: "charAt chars \<lfloor>rand i * real (length chars)\<rfloor> = [c]" "c \<in> set chars"
      by (elim exE conjE)
    have unfold: "gen_loop rand i len code = gen_loop rand (Suc i) len (code @ [c])"
      by (subst gen_loop.simps) (simp only: True c(1) if_True)
    have "int (Suc i) \<le> len" using True by simp
    from "1.IH" [OF True "1.prems"(1) this]
    have ih: "length (gen_loop rand (Suc i) len (code @ [c])) =
                length (code @ [c]) + nat (len - int (Suc i))"
         "set (gen_loop rand (Suc i) len (code @ [c])) \<subseteq> set (code @ [c]) \<union> set chars"
      by (simp_all only: c(1))
    have a: "length (code @ [c]) + nat (len - int (Suc i)) = length code + nat (len - int i)"
      using True by simp
    have b: "set (code @ [c]) \<union> set chars \<subseteq> set code \<union> set chars"
      using c(2) by simp
    have l: "length (gen_loop rand i len code) = length code + nat (len - int i)"
      by (simp only: unfold ih(1) a)
    have "set (gen_loop rand i len code) \<subseteq> set (code @ [c]) \<union> set chars"
      by (simp only: unfold ih(2))
    then have "set (gen_loop rand i len code) \<subseteq> set code \<union> set chars"
      using b by (rule subset_trans)
    with l show ?thesis by (rule conjI)
  next
    case False
    have "gen_loop rand i len code = code"
      by (subst gen_loop.simps) (simp only: False if_False)
    with False "1.prems"(2) show ?thesis by simp
  qed
qed


theorem generateRideCode_length_alphabet:
  assumes "\<forall>i. 0 \<le> rand i \<and> rand i < 1" and "0 \<le> L"
  shows "length (generateRideCode rand L) = nat L \<and>
         set (generateRideCode rand L) \<subseteq> set chars"
  using gen_loop_props [OF assms(1), of 0 L "[]"] assms(2)
  by (simp add: generateRideCode_def)

theorem generateRideCode_length_alphabet_witness:
  "(\<forall>i. (0::real) \<le> (\<lambda>i::nat. 1 / 2) i \<and> (\<lambda>i::nat. 1 / 2) i < (1::real)) \<and> (0::int) \<le> 6 \<and>
   generateRideCode (\<lambda>i. 1 / 2) 6 = ''SSSSSS'' \<and>
   length (generateRideCode (\<lambda>i. 1 / 2) 6) = nat 6 \<and>
   set (generateRideCode (\<lambda>i. 1 / 2) 6) \<subseteq> set chars"
proof -
  have h: "\<forall>i. (0::real) \<le> (\<lambda>i::nat. 1 / 2) i \<and> (\<lambda>i::nat. 1 / 2) i < (1::real)" by simp
  have v: "generateRideCode (\<lambda>i. 1 / 2) 6 = ''SSSSSS''"
    by (simp add: generateRideCode_def gen_loop.simps charAt_def chars_def)
  show ?thesis
    using generateRideCode_length_alphabet [OF h, of 6] v by simp
qed


section \<open>Webhook authenticity\<close>



section \<open>Side effects of join and create\<close>

text \<open>
  C3. The claim: a join or a ride creation whose business writes succeeded reports
  success whatever happens in the notification and history side effects. The handlers
  do absorb a failing notification insert, but their history call names a function
  that does not exist, so the handler's own \<^verbatim>\<open>catch\<close> answers 500 after the writes
  are done. The join handler can only answer 400, 404 or 500, the create handler
  only 400 or 500; in the scenario the join stores the participant and takes the seat,
  the creation stores the ride, and both answer 500.
\<close>

theorem ride_handlers_never_report_success:
  "fst (post_rides_join e s req) \<in>
     {Response 400 (ErrorBody ''Missing required fields''),
      Response 404 (ErrorBody ''Ride not found''),
      Response 400 (ErrorBody ''No seats available''),
      Response 500 (ErrorBody ''Failed to join ride'')} \<and>
   fst (post_rides_create e s creq) \<in>
     {Response 400 (ErrorBody ''Missing required fields''),
      Response 500 (ErrorBody ''Failed to create ride'')} \<and>
   post_rides_join ex_env ex_store_created ex_join_a =
     (Response 500 (ErrorBody ''Failed to join ride''), ex_store_joined) \<and>
   ride_participants ex_store_created = [] \<and>
   ride_participants ex_store_joined = [ex_participant 2 10] \<and>
   map seats_left (rides ex_store_created) = [1] \<and>
   map seats_left (rides ex_store_joined) = [0] \<and>
   post_rides_create ex_env empty_store ex_create_req =
     (Response 500 (ErrorBody ''Failed to create ride''), ex_store_created) \<and>
   rides ex_store_created = [ex_ride]"
proof -
  have j: "fst (post_rides_join e s req) \<in>
     {Response 400 (ErrorBody ''Missing required fields''),
      Response 404 (ErrorBody ''Ride not found''),
      Response 400 (ErrorBody ''No seats available''),
      Response 500 (ErrorBody ''Failed to join ride'')}"
    by (simp add: post_rides_join_def createHistoryEntry_def Let_def
          split: option.split prod.split)
  have c: "fst (post_rides_create e s creq) \<in>
     {Response 400 (ErrorBody ''Missing required fields''),
      Response 500 (ErrorBody ''Failed to create ride'')}"
    by (simp add: post_rides_create_def createHistoryEntry_def Let_def
          split: option.split prod.split)
  have st: "ride_participants ex_store_created = []"
       "ride_participants ex_store_joined = [ex_participant 2 10]"
       "map seats_left (rides ex_store_created) = [1]"
       "map seats_left (rides ex_store_joined) = [0]"
       "rides ex_store_created = [ex_ride]"
    by (simp_all add: ex_store_created_def ex_store_joined_def ex_ride_def)
  from j c st ex_join_eval ex_create_eval show ?thesis by simp
qed

section \<open>Ride code collisions\<close>

lemma post_rides_create_collision:
  assumes "c_userId req \<noteq> None" and "\<not> falsy_str (c_title req)" and "\<not> falsy_str (c_origin req)"
    and "\<not> falsy_str (c_destination req)" and "\<not> falsy_str (c_departureTime req)"
    and "\<not> falsy_int (c_totalSeats req)" and "c_pricePerSeat req \<noteq> None"
    and "generateRideCode (math_random e) 6 \<in> set (map ride_code (rides s))"
  shows "post_rides_create e s req = (Response 500 (ErrorBody ''Failed to create ride''), s)"
  using assms by (simp add: post_rides_create_def insert_ride_def Let_def)

lemma ex_create_req_valid:
  "c_userId ex_create_req \<noteq> None" "\<not> falsy_str (c_title ex_create_req)"
  "\<not> falsy_str (c_origin ex_create_req)" "\<not> falsy_str (c_destination ex_create_req)"
  "\<not> falsy_str (c_departureTime ex_create_req)" "\<not> falsy_int (c_totalSeats ex_create_req)"
  "c_pricePerSeat ex_create_req \<noteq> None"
  by (simp_all add: ex_create_req_def falsy_str_def falsy_int_def)

lemma ex_collision:
  "generateRideCode (math_random ex_env) 6 \<in> set (map ride_code (rides ex_store_created))"
  by (simp add: ex_env_def ex_store_created_def ex_ride_def generate_zero_6)

text \<open>
  C8, as the code has it. The creation handler generates one ride code and inserts the
  ride once. When that code is already held by a ride (the unique column rejects the
  insert) the handler answers 500 \<^verbatim>\<open>Failed to create ride\<close> and leaves the store
  unchanged: nothing is regenerated and nothing is retried, so a store that always
  reports a collision ends every creation with an error after one attempt.
\<close>

theorem create_collision_fails_without_retry:
  assumes "c_userId req \<noteq> None" and "\<not> falsy_str (c_title req)" and "\<not> falsy_str (c_origin req)"
    and "\<not> falsy_str (c_destination req)" and "\<not> falsy_str (c_departureTime req)"
    and "\<not> falsy_int (c_totalSeats req)" and "c_pricePerSeat req \<noteq> None"
    and "generateRideCode (math_random e) 6 \<in> set (map ride_code (rides s))"
  shows "post_rides_create e s req = (Response 500 (ErrorBody ''Failed to create ride''), s)"
  using assms by (rule post_rides_create_collision)

theorem create_collision_fails_without_retry_witness:
  "c_userId ex_create_req \<noteq> None \<and> \<not> falsy_str (c_title ex_create_req) \<and>
   \<not> falsy_str (c_origin ex_create_req) \<and> \<not> falsy_str (c_destination ex_create_req) \<and>
   \<not> falsy_str (c_departureTime ex_create_req) \<and> \<not> falsy_int (c_totalSeats ex_create_req) \<and>
   c_pricePerSeat ex_create_req \<noteq> None \<and>
   generateRideCode (math_random ex_env) 6 \<in> set (map ride_code (rides ex_store_created)) \<and>
   post_rides_create ex_env ex_store_created ex_create_req =
     (Response 500 (ErrorBody ''Failed to create ride''), ex_store_created)"
  using create_collision_fails_without_retry [OF ex_create_req_valid ex_collision]
    ex_create_req_valid ex_collision
  by simp

theorem create_collision_counterexample:
  "generateRideCode (math_random ex_env) 6 \<in> set (map ride_code (rides ex_store_created)) \<and>
   post_rides_create ex_env ex_store_created ex_create_req =
     (Response 500 (ErrorBody ''Failed to create ride''), ex_store_created) \<and>
   length (rides (snd (post_rides_create ex_env ex_store_created ex_create_req))) =
     length (rides ex_store_created)"
proof -
  have "post_rides_create ex_env ex_store_created ex_create_req =
     (Response 500 (ErrorBody ''Failed to create ride''), ex_store_created)"
    by (rule post_rides_create_collision [OF ex_create_req_valid ex_collision])
  with ex_collision show ?thesis by simp
qed

section \<open>Settlement without a participant\<close>

lemma ex_orphan_reached:
  "post_create_checkout_session (Some (''cs_1'', ''https://pay.example/cs_1'')) ex_store_created
       ex_checkout_a =
     (Response 200 (CheckoutOk ''https://pay.example/cs_1'' ''cs_1''), ex_store_orphan)"
  by (simp add: post_create_checkout_session_def ex_store_orphan_def ex_defs store_ops Let_def)

lemma ex_orphan_no_participant: "select_participant ex_store_orphan 0 10 = None"
  by (simp add: ex_store_orphan_def ex_store_created_def select_participant_def single_def)

lemma ex_session_facts:
  "md_rideId ex_session = Some 0" "md_userId ex_session = Some 10"
  "payment_status ex_session = ''paid''" "ex_retrieve ''cs_1'' = Some ex_session"
  by (simp_all add: ex_session_def ex_retrieve_def)

lemma settle_skipped:
  assumes "select_participant s rideId userId = None"
    and "md_rideId session = Some rideId" and "md_userId session = Some userId"
    and "payment_status session = ''paid''" and "retrieve sessionId = Some session"
  shows "get_stripe_session retrieve e s sessionId =
           (Response 200 (SessionCompleted (Some rideId) (Some userId)), s)"
  using assms by (simp add: get_stripe_session_def Let_def)

text \<open>
  C5, as the code has it. When the session the client polls is paid and names a
  (ride, user) pair that has no participant row, settlement writes nothing at all: the
  payment row keeps its status (it is not marked completed), and no participant, ride
  code, notification or history row is touched. The poll endpoint still answers
  \<^verbatim>\<open>completed\<close>.
\<close>

theorem settle_without_participant_writes_nothing:
  assumes "select_participant s rideId userId = None"
    and "md_rideId session = Some rideId" and "md_userId session = Some userId"
    and "payment_status session = ''paid''" and "retrieve sessionId = Some session"
  shows "get_stripe_session retrieve e s sessionId =
           (Response 200 (SessionCompleted (Some rideId) (Some userId)), s)"
  using assms by (simp add: get_stripe_session_def Let_def)

theorem settle_without_participant_writes_nothing_witness:
  "select_participant ex_store_orphan 0 10 = None \<and>
   md_rideId ex_session = Some 0 \<and> md_userId ex_session = Some 10 \<and>
   payment_status ex_session = ''paid'' \<and> ex_retrieve ''cs_1'' = Some ex_session \<and>
   get_stripe_session ex_retrieve ex_env ex_store_orphan ''cs_1'' =
     (Response 200 (SessionCompleted (Some 0) (Some 10)), ex_store_orphan)"
  using settle_without_participant_writes_nothing
          [where retrieve = ex_retrieve and sessionId = "''cs_1''" and e = ex_env,
           OF ex_orphan_no_participant ex_session_facts]
    ex_orphan_no_participant ex_session_facts
  by simp

theorem settle_without_participant_counterexample:
  "select_participant ex_store_orphan 0 10 = None \<and>
   map pay_stripe_session_id (payments ex_store_orphan) = [Some ''cs_1''] \<and>
   ex_retrieve ''cs_1'' = Some ex_session \<and> payment_status ex_session = ''paid'' \<and>
   md_rideId ex_session = Some 0 \<and> md_userId ex_session = Some 10 \<and>
   map pay_status
     (payments (snd (get_stripe_session ex_retrieve ex_env ex_store_orphan ''cs_1''))) =
     [''pending'']"
proof -
  have p: "map pay_status (payments ex_store_orphan) = [''pending'']"
          "map pay_stripe_session_id (payments ex_store_orphan) = [Some ''cs_1'']"
    by (simp_all add: ex_store_orphan_def ex_payment_def)
  from settle_skipped [where retrieve = ex_retrieve and sessionId = "''cs_1''" and e = ex_env,
                       OF ex_orphan_no_participant ex_session_facts]
       ex_orphan_no_participant ex_session_facts p
  show ?thesis by simp
qed

section \<open>Settlement of a session without a payment row\<close>

lemma get_stripe_session_payments_unmatched:
  assumes "Some sessionId \<notin> set (map pay_stripe_session_id (payments s))"
  shows "payments (snd (get_stripe_session retrieve e s sessionId)) = payments s"
  using assms
  by (simp add: get_stripe_session_def Let_def settle_participant_payments
        payments_unmatched_completed split: option.split)

lemma get_stripe_session_unknown_to_provider:
  "retrieve sessionId = None \<Longrightarrow>
   get_stripe_session retrieve e s sessionId =
     (Response 500 (ErrorBody ''Failed to retrieve session''), s)"
  by (simp add: get_stripe_session_def)

lemma settle_participant_ride_codes_kept:
  assumes "set (map r_id (rides s)) \<subseteq> set (map rc_ride_id (ride_codes s))"
  shows "ride_codes (settle_participant e s participant rideId userId sessionId intent) =
           ride_codes s"
proof -
  have "rideId \<in> set (map rc_ride_id (ride_codes s)) \<or> \<not> ride_exists s rideId"
    using assms unfolding ride_exists_def by blast
  then show ?thesis
    by (simp only: settle_participant_ride_codes upsert_ride_code_refused)
qed

lemma get_stripe_session_ride_codes_kept:
  assumes "set (map r_id (rides s)) \<subseteq> set (map rc_ride_id (ride_codes s))"
  shows "ride_codes (snd (get_stripe_session retrieve e s sessionId)) = ride_codes s"
  by (simp add: get_stripe_session_def Let_def settle_participant_ride_codes_kept [OF assms]
        split: option.split)

text \<open>
  C6, as the code has it. Settlement never looks a session up in the payments table.
  For a session identifier that no payment row carries, the poll endpoint creates or
  changes no payment row, and no ride code row either when every ride has the code row
  its creation gives it. It signals an error, 500 with the store unchanged, when the
  payment provider does not know the session. Participant rows are not protected by
  the absence of a payment row.
\<close>

theorem settle_unknown_session_keeps_payments:
  assumes "Some sessionId \<notin> set (map pay_stripe_session_id (payments s))"
  shows "payments (snd (get_stripe_session retrieve e s sessionId)) = payments s \<and>
         (set (map r_id (rides s)) \<subseteq> set (map rc_ride_id (ride_codes s)) \<longrightarrow>
            ride_codes (snd (get_stripe_session retrieve e s sessionId)) = ride_codes s) \<and>
         (retrieve sessionId = None \<longrightarrow>
            get_stripe_session retrieve e s sessionId =
              (Response 500 (ErrorBody ''Failed to retrieve session''), s))"
  using get_stripe_session_payments_unmatched [OF assms]
    get_stripe_session_ride_codes_kept get_stripe_session_unknown_to_provider
  by blast

lemma ex_pending_facts:
  "Some ''cs_9'' \<notin> set (map pay_stripe_session_id (payments ex_store_pending))"
  "set (map r_id (rides ex_store_pending)) \<subseteq> set (map rc_ride_id (ride_codes ex_store_pending))"
  "map paid (ride_participants ex_store_pending) = [False]"
  "map p_stripe_session_id (ride_participants ex_store_pending) = [None]"
  "map rc_code (ride_codes ex_store_pending) = [''AAAAAA'']"
  by (simp_all add: ex_store_pending_def ex_store_joined_def ex_payment_def ex_ride_def
        ex_participant_def)

theorem settle_unknown_session_keeps_payments_witness:
  "Some ''cs_9'' \<notin> set (map pay_stripe_session_id (payments ex_store_pending)) \<and>
   set (map r_id (rides ex_store_pending)) \<subseteq> set (map rc_ride_id (ride_codes ex_store_pending)) \<and>
   ex_retrieve ''cs_9'' = None \<and>
   payments (snd (get_stripe_session ex_retrieve ex_env ex_store_pending ''cs_9'')) =
     payments ex_store_pending \<and>
   ride_codes (snd (get_stripe_session ex_retrieve ex_env ex_store_pending ''cs_9'')) =
     ride_codes ex_store_pending \<and>
   get_stripe_session ex_retrieve ex_env ex_store_pending ''cs_9'' =
     (Response 500 (ErrorBody ''Failed to retrieve session''), ex_store_pending)"
proof -
  have unknown: "ex_retrieve ''cs_9'' = None"
    by (simp add: ex_retrieve_def)
  from settle_unknown_session_keeps_payments
         [where retrieve = ex_retrieve and e = ex_env, OF ex_pending_facts(1)]
       ex_pending_facts(1,2) unknown
  show ?thesis by simp
qed

lemma ex_stray_result:
  "get_stripe_session ex_retrieve_stray ex_env2 ex_store_pending ''cs_9'' =
     (Response 200 (SessionCompleted (Some 0) (Some 10)),
      settle_participant ex_env2 ex_store_pending (ex_participant 2 10) 0 10 ''cs_9''
        (Some ''pi_1''))"
  by (simp add: get_stripe_session_def ex_retrieve_stray_def ex_session_stray_def ex_session_def
        ex_select_participant)

theorem settle_unknown_session_counterexample:
  "Some ''cs_9'' \<notin> set (map pay_stripe_session_id (payments ex_store_pending)) \<and>
   fst (get_stripe_session ex_retrieve_stray ex_env2 ex_store_pending ''cs_9'') =
     Response 200 (SessionCompleted (Some 0) (Some 10)) \<and>
   map paid (ride_participants ex_store_pending) = [False] \<and>
   map paid (ride_participants
               (snd (get_stripe_session ex_retrieve_stray ex_env2 ex_store_pending ''cs_9''))) =
     [True] \<and>
   map p_stripe_session_id (ride_participants ex_store_pending) = [None] \<and>
   map p_stripe_session_id
     (ride_participants
        (snd (get_stripe_session ex_retrieve_stray ex_env2 ex_store_pending ''cs_9''))) =
     [Some ''cs_9'']"
proof -
  have rows: "map paid (ride_participants
                (settle_participant ex_env2 ex_store_pending (ex_participant 2 10) 0 10 ''cs_9''
                   (Some ''pi_1''))) = [True]"
      "map p_stripe_session_id (ride_participants
                (settle_participant ex_env2 ex_store_pending (ex_participant 2 10) 0 10 ''cs_9''
                   (Some ''pi_1''))) = [Some ''cs_9'']"
    by (simp_all add: settle_participant_rows update_participant_paid_def ex_store_pending_def
          ex_store_joined_def ex_participant_def)
  from ex_pending_facts(1,3,4) rows show ?thesis by (simp add: ex_stray_result)
qed

section \<open>Joining: the ride row and its status\<close>

lemma single_map: "single (map f xs) = map_option f (single xs)"
  by (cases xs rule: list.exhaust [case_product list.exhaust]) (auto simp: single_def split: list.split)

lemma single_SomeD: "single xs = Some x \<Longrightarrow> xs = [x]"
  by (auto simp: single_def split: list.splits)

lemma select_ride_SomeD:
  assumes "select_ride s rideId = Some r"
  shows "r_id r = rideId" and "r \<in> set (rides s)" and "ride_exists s rideId"
proof -
  from assms have eq: "filter (\<lambda>r. r_id r = rideId) (rides s) = [r]"
    by (simp add: select_ride_def single_SomeD)
  then have "r \<in> set (filter (\<lambda>r. r_id r = rideId) (rides s))" by simp
  then show "r_id r = rideId" and "r \<in> set (rides s)" by simp_all
  then show "ride_exists s rideId" by (auto simp: ride_exists_def)
qed

lemma select_ride_with_status:
  "select_ride (with_status f s) rideId =
     map_option (\<lambda>r. r\<lparr>r_status := f (r_id r)\<rparr>) (select_ride s rideId)"
  by (simp add: select_ride_def with_status_def filter_map comp_def single_map)

lemma ride_exists_with_status [simp]: "ride_exists (with_status f s) rideId = ride_exists s rideId"
  by (simp add: ride_exists_def with_status_def comp_def)

lemma insert_participant_with_status:
  "insert_participant (with_status f s) row =
     map_option (\<lambda>(p, s'). (p, with_status f s')) (insert_participant s row)"
  by (simp add: insert_participant_def Let_def) (simp add: with_status_def)

lemma update_seats_left_with_status:
  "update_seats_left (with_status f s) rideId v = with_status f (update_seats_left s rideId v)"
  by (simp add: update_seats_left_def with_status_def comp_def if_distrib cong: if_cong)

lemma createNotification_with_status:
  "createNotification e (with_status f s) userId type title text rideId meta =
     with_status f (createNotification e s userId type title text rideId meta)"
  by (simp add: createNotification_def notifications_insert_def insert_notification_def
        ignore_error_def) (simp add: with_status_def)

lemma join_ignores_status:
  "post_rides_join e (with_status f s) req =
     (fst (post_rides_join e s req), with_status f (snd (post_rides_join e s req)))"
  by (simp add: post_rides_join_def select_ride_with_status insert_participant_with_status
        update_seats_left_with_status createNotification_with_status createHistoryEntry_def
        Let_def split: option.split prod.split)

lemma join_missing_ride:
  "j_rideId req = Some rideId \<Longrightarrow> j_userId req = Some userId \<Longrightarrow> select_ride s rideId = None \<Longrightarrow>
   post_rides_join e s req = (Response 404 (ErrorBody ''Ride not found''), s)"
  by (simp add: post_rides_join_def)

text \<open>
  C7, as the code has it. The join handler requires the ride row to exist and never
  reads its lifecycle status: a join whose ride id selects no ride fails with 404
  \<^verbatim>\<open>Ride not found\<close> and leaves the store unchanged, and against any store the handler's
  response and its writes are the same whatever status the rides carry.
\<close>

theorem join_requires_ride_not_status:
  "(j_rideId req = Some rideId \<and> j_userId req = Some userId \<and> select_ride s rideId = None \<longrightarrow>
      post_rides_join e s req = (Response 404 (ErrorBody ''Ride not found''), s)) \<and>
   post_rides_join e (with_status f s) req =
     (fst (post_rides_join e s req), with_status f (snd (post_rides_join e s req)))"
  using join_missing_ride [of req rideId userId s e] join_ignores_status [of e f s req]
  by blast

lemma ex_cancelled_is_with_status:
  "with_status (\<lambda>i. ''cancelled'') ex_store_created = ex_store_cancelled"
  by (simp add: with_status_def ex_store_cancelled_def ex_store_created_def ex_ride_def)

lemma ex_join_cancelled_eval:
  "post_rides_join ex_env ex_store_cancelled ex_join_a =
     (Response 500 (ErrorBody ''Failed to join ride''),
      ex_store_joined\<lparr>rides := [ex_ride\<lparr>seats_left := 0, r_status := ''cancelled''\<rparr>]\<rparr>)"
  by (simp add: post_rides_join_def ex_defs generate_ex store_ops Let_def)

theorem join_requires_ride_not_status_witness:
  "j_rideId (ex_join_a\<lparr>j_rideId := Some 5\<rparr>) = Some 5 \<and>
   j_userId (ex_join_a\<lparr>j_rideId := Some 5\<rparr>) = Some 10 \<and>
   select_ride ex_store_created 5 = None \<and>
   post_rides_join ex_env ex_store_created (ex_join_a\<lparr>j_rideId := Some 5\<rparr>) =
     (Response 404 (ErrorBody ''Ride not found''), ex_store_created) \<and>
   post_rides_join ex_env (with_status (\<lambda>i. ''cancelled'') ex_store_created)
       (ex_join_a\<lparr>j_rideId := Some 5\<rparr>) =
     (Response 404 (ErrorBody ''Ride not found''), ex_store_cancelled)"
proof -
  have h: "j_rideId (ex_join_a\<lparr>j_rideId := Some 5\<rparr>) = Some 5"
      "j_userId (ex_join_a\<lparr>j_rideId := Some 5\<rparr>) = Some 10"
      "select_ride ex_store_created 5 = None"
    by (simp_all add: ex_join_a_def select_ride_def single_def ex_store_created_def ex_ride_def)
  from join_requires_ride_not_status
         [of "ex_join_a\<lparr>j_rideId := Some 5\<rparr>" 5 10 ex_store_created ex_env "\<lambda>i. ''cancelled''"] h
  show ?thesis by (simp add: ex_cancelled_is_with_status)
qed

theorem join_inactive_ride_counterexample:
  "map r_status (rides ex_store_cancelled) = [''cancelled''] \<and>
   j_rideId ex_join_a = Some 0 \<and> map r_id (rides ex_store_cancelled) = [0] \<and>
   map seats_left (rides ex_store_cancelled) = [1] \<and>
   ride_participants ex_store_cancelled = [] \<and>
   ride_participants (snd (post_rides_join ex_env ex_store_cancelled ex_join_a)) =
     [ex_participant 2 10] \<and>
   map seats_left (rides (snd (post_rides_join ex_env ex_store_cancelled ex_join_a))) = [0]"
  by (simp only: ex_join_cancelled_eval fst_conv snd_conv)
     (simp add: ex_store_cancelled_def ex_store_created_def ex_store_joined_def ex_ride_def
        ex_join_a_def)

section \<open>Joining a ride with one seat left\<close>









lemma join_steps_sequential:
  "join_steps 4 e s (JoinStart req) =
     (JoinDone (fst (post_rides_join e s req)), snd (post_rides_join e s req))"
  by (simp add: eval_nat_numeral post_rides_join_def Let_def createHistoryEntry_def
        split: option.split prod.split)

lemma run_schedule_one_request:
  "run_schedule e s [JoinStart req] [0, 0, 0, 0] =
     ([JoinDone (fst (post_rides_join e s req))], snd (post_rides_join e s req))"
  by (simp add: post_rides_join_def Let_def createHistoryEntry_def
        split: option.split prod.split)


section \<open>The seat invariant\<close>

lemma participant_count_ride_ids:
  "participant_count s rideId =
     length (filter (\<lambda>i. i = rideId) (map p_ride_id (ride_participants s)))"
  by (simp add: participant_count_def filter_map comp_def)

lemma invariant_frame:
  assumes "rides s' = rides s"
    and "map p_ride_id (ride_participants s') = map p_ride_id (ride_participants s)"
    and "next_id s \<le> next_id s'"
  shows "seats_invariant s \<Longrightarrow> seats_invariant s'"
    and "keys_wellformed s \<Longrightarrow> keys_wellformed s'"
proof -
  have count: "participant_count s' i = participant_count s i" for i
    by (simp add: participant_count_ride_ids assms(2))
  show "seats_invariant s \<Longrightarrow> seats_invariant s'"
  proof -
    have "ride_seats_ok s' = ride_seats_ok s"
      by (rule ext) (simp add: ride_seats_ok_def count)
    then show "seats_invariant s \<Longrightarrow> seats_invariant s'"
      by (simp add: seats_invariant_def assms(1))
  qed
  have ex: "ride_exists s' = ride_exists s"
    by (rule ext) (rule ride_exists_rides [OF assms(1)])
  have fk: "list_all (\<lambda>p. ride_exists s' (p_ride_id p)) (ride_participants s') =
            list_all (\<lambda>p. ride_exists s (p_ride_id p)) (ride_participants s)"
  proof -
    have "list_all (\<lambda>p. ride_exists s' (p_ride_id p)) (ride_participants s') =
          list_all (ride_exists s') (map p_ride_id (ride_participants s'))"
      by (simp add: list_all_iff)
    also have "\<dots> = list_all (ride_exists s) (map p_ride_id (ride_participants s))"
      by (simp only: assms(2) ex)
    also have "\<dots> = list_all (\<lambda>p. ride_exists s (p_ride_id p)) (ride_participants s)"
      by (simp add: list_all_iff)
    finally show ?thesis .
  qed
  show "keys_wellformed s \<Longrightarrow> keys_wellformed s'"
  proof -
    assume wf: "keys_wellformed s"
    then have "list_all (\<lambda>p. ride_exists s' (p_ride_id p)) (ride_participants s')"
      by (simp only: fk keys_wellformed_def)
    moreover have "distinct (map r_id (rides s'))"
      using wf by (simp add: keys_wellformed_def assms(1))
    moreover have "list_all (\<lambda>r. r_id r < next_id s') (rides s')"
      using wf assms(3) by (auto simp: keys_wellformed_def assms(1) list_all_iff)
    ultimately show ?thesis by (simp add: keys_wellformed_def)
  qed
qed

lemma settle_participant_ride_ids:
  "map p_ride_id (ride_participants (settle_participant e s participant rideId userId sessionId intent)) =
     map p_ride_id (ride_participants s)"
  by (simp add: settle_participant_rows update_participant_paid_def comp_def if_distrib
        cong: if_cong)

lemma settle_participant_next_id:
  "next_id s \<le> next_id (settle_participant e s participant rideId userId sessionId intent)"
  by (simp add: settle_participant_def Let_def createNotification_def notifications_insert_def
        insert_notification_def logUserAction_def history_insert_def insert_history_def
        upsert_ride_code_def ignore_error_def)

lemma poll_frame:
  "rides (snd (get_stripe_session retrieve e s sessionId)) = rides s"
  "map p_ride_id (ride_participants (snd (get_stripe_session retrieve e s sessionId))) =
     map p_ride_id (ride_participants s)"
  "next_id s \<le> next_id (snd (get_stripe_session retrieve e s sessionId))"
  by (simp_all add: get_stripe_session_def Let_def settle_participant_ride_ids
        settle_participant_next_id split: option.split)

lemma webhook_frame:
  "rides (snd (post_stripe_webhook verify e s req)) = rides s"
  "map p_ride_id (ride_participants (snd (post_stripe_webhook verify e s req))) =
     map p_ride_id (ride_participants s)"
  "next_id s \<le> next_id (snd (post_stripe_webhook verify e s req))"
  by (simp_all add: post_stripe_webhook_rejects)

lemma checkout_frame:
  "rides (snd (post_create_checkout_session created s req)) = rides s"
  "map p_ride_id (ride_participants (snd (post_create_checkout_session created s req))) =
     map p_ride_id (ride_participants s)"
  "next_id s \<le> next_id (snd (post_create_checkout_session created s req))"
  by (simp_all add: post_create_checkout_session_def Let_def insert_payment_def ignore_error_def
        split: option.split prod.split)

lemma join_outcome:
  "snd (post_rides_join e s req) = s \<or>
   (\<exists>rideId rideData row.
      select_ride s rideId = Some rideData \<and> 0 < seats_left rideData \<and> p_ride_id row = rideId \<and>
      rides (snd (post_rides_join e s req)) =
        map (\<lambda>r. if r_id r = rideId then r\<lparr>seats_left := seats_left rideData - 1\<rparr> else r) (rides s) \<and>
      ride_participants (snd (post_rides_join e s req)) = ride_participants s @ [row] \<and>
      next_id (snd (post_rides_join e s req)) = Suc (next_id s))"
  by (auto simp: post_rides_join_def Let_def createHistoryEntry_def insert_participant_def
        update_seats_left_def split: option.split prod.split)

lemma select_ride_unique:
  assumes "select_ride s rideId = Some rideData" and "r \<in> set (rides s)" and "r_id r = rideId"
  shows "r = rideData"
proof -
  from assms(1) have "filter (\<lambda>r. r_id r = rideId) (rides s) = [rideData]"
    by (simp add: select_ride_def single_SomeD)
  moreover have "r \<in> set (filter (\<lambda>r. r_id r = rideId) (rides s))" using assms(2,3) by simp
  ultimately show ?thesis by simp
qed

lemma join_preserves_invariant:
  assumes "seats_invariant s" and "keys_wellformed s"
  shows "seats_invariant (snd (post_rides_join e s req)) \<and>
         keys_wellformed (snd (post_rides_join e s req))"
proof -
  let ?s' = "snd (post_rides_join e s req)"
  from join_outcome [of e s req] show ?thesis
  proof (elim disjE exE conjE)
    assume "?s' = s"
    with assms show ?thesis by simp
  next
    fix rideId and rideData :: ride and row :: participant
    let ?upd = "\<lambda>r. if r_id r = rideId then r\<lparr>seats_left := seats_left rideData - 1\<rparr> else r"
    assume sel: "select_ride s rideId = Some rideData" and pos: "0 < seats_left rideData"
      and row: "p_ride_id row = rideId"
      and rides': "rides ?s' = map ?upd (rides s)"
      and rows': "ride_participants ?s' = ride_participants s @ [row]"
      and next': "next_id ?s' = Suc (next_id s)"
    have count: "participant_count ?s' i =
                   (if i = rideId then Suc (participant_count s i) else participant_count s i)" for i
      by (simp add: participant_count_def rows' row)
    have inv: "seats_invariant ?s'"
      unfolding seats_invariant_def list_all_iff
    proof
      fix r' assume "r' \<in> set (rides ?s')"
      then obtain r where r: "r \<in> set (rides s)" and r': "r' = ?upd r"
        by (auto simp: rides')
      from assms(1) r have old: "seats_left r \<le> total_seats r"
          "int (participant_count s (r_id r)) = total_seats r - seats_left r"
          "0 \<le> seats_left r \<or> seats_left r = total_seats r"
        by (simp_all add: seats_invariant_def ride_seats_ok_def list_all_iff)
      show "ride_seats_ok ?s' r'"
      proof (cases "r_id r = rideId")
        case True
        then have "r = rideData" using select_ride_unique [OF sel r] by simp
        with True old(1,2) pos show ?thesis by (simp add: ride_seats_ok_def r' count)
      next
        case False
        with old show ?thesis by (simp add: ride_seats_ok_def r' count)
      qed
    qed
    have ids: "map r_id (rides ?s') = map r_id (rides s)"
      by (simp add: rides' comp_def if_distrib cong: if_cong)
    then have ex: "ride_exists ?s' i = ride_exists s i" for i
      by (simp add: ride_exists_def del: set_map)
    have "ride_exists s rideId" by (rule select_ride_SomeD(3) [OF sel])
    with assms(2) have fk: "list_all (\<lambda>p. ride_exists ?s' (p_ride_id p)) (ride_participants ?s')"
      by (simp add: keys_wellformed_def rows' ex row)
    have "distinct (map r_id (rides ?s'))" using assms(2) by (simp only: ids keys_wellformed_def)
    moreover have "list_all (\<lambda>r. r_id r < next_id ?s') (rides ?s')"
    proof -
      have "list_all (\<lambda>i. i < next_id ?s') (map r_id (rides ?s'))"
        using assms(2) by (auto simp only: ids next' keys_wellformed_def list_all_iff set_map)
      then show ?thesis by (simp add: list_all_iff)
    qed
    ultimately have "keys_wellformed ?s'" using fk by (simp add: keys_wellformed_def)
    with inv show ?thesis ..
  qed
qed

lemma create_outcome:
  "snd (post_rides_create e s req) = s \<or>
   (\<exists>row n.
      c_totalSeats req = Some n \<and> r_id row = next_id s \<and> total_seats row = n \<and> seats_left row = n \<and>
      rides (snd (post_rides_create e s req)) = rides s @ [row] \<and>
      ride_participants (snd (post_rides_create e s req)) = ride_participants s \<and>
      next_id s < next_id (snd (post_rides_create e s req)))"
  by (auto simp: post_rides_create_def Let_def createHistoryEntry_def insert_ride_def
        insert_ride_code_def ignore_error_def falsy_int_def split: option.split prod.split)

lemma create_preserves_invariant:
  assumes "seats_invariant s" and "keys_wellformed s"
  shows "seats_invariant (snd (post_rides_create e s req)) \<and>
         keys_wellformed (snd (post_rides_create e s req))"
proof -
  let ?s' = "snd (post_rides_create e s req)"
  from create_outcome [of e s req] show ?thesis
  proof (elim disjE exE conjE)
    assume "?s' = s"
    with assms show ?thesis by simp
  next
    fix row :: ride and n
    assume n: "c_totalSeats req = Some n" and id: "r_id row = next_id s"
      and total: "total_seats row = n" and left: "seats_left row = n"
      and rides': "rides ?s' = rides s @ [row]"
      and rows': "ride_participants ?s' = ride_participants s"
      and next': "next_id s < next_id ?s'"
    have bound: "\<forall>r \<in> set (rides s). r_id r < next_id s"
      using assms(2) by (simp add: keys_wellformed_def list_all_iff)
    have fk: "\<forall>p \<in> set (ride_participants s). ride_exists s (p_ride_id p)"
      using assms(2) by (simp add: keys_wellformed_def list_all_iff)
    have "\<forall>p \<in> set (ride_participants s). p_ride_id p \<noteq> next_id s"
    proof
      fix p assume "p \<in> set (ride_participants s)"
      with fk have "p_ride_id p \<in> set (map r_id (rides s))" by (simp add: ride_exists_def)
      then obtain r where "r \<in> set (rides s)" and "r_id r = p_ride_id p" by auto
      with bound show "p_ride_id p \<noteq> next_id s" by force
    qed
    then have "filter (\<lambda>p. p_ride_id p = next_id s) (ride_participants s) = []"
      by (simp add: filter_empty_conv)
    then have fresh: "participant_count s (next_id s) = 0"
      by (simp add: participant_count_def)
    have count: "participant_count ?s' i = participant_count s i" for i
      by (simp add: participant_count_def rows')
    have "ride_seats_ok ?s' = ride_seats_ok s"
      by (rule ext) (simp add: ride_seats_ok_def count)
    moreover have "ride_seats_ok s row"
      by (simp add: ride_seats_ok_def id total left fresh)
    ultimately have inv: "seats_invariant ?s'"
      using assms(1) by (simp add: seats_invariant_def rides')
    have ex: "ride_exists s i \<Longrightarrow> ride_exists ?s' i" for i
      by (simp add: ride_exists_def rides')
    have "distinct (map r_id (rides ?s'))"
      using assms(2) bound by (auto simp: keys_wellformed_def rides' id)
    moreover have "list_all (\<lambda>r. r_id r < next_id ?s') (rides ?s')"
      using bound next' by (auto simp: list_all_iff rides' id)
    moreover have "list_all (\<lambda>p. ride_exists ?s' (p_ride_id p)) (ride_participants ?s')"
      using fk ex by (simp add: list_all_iff rows')
    ultimately have "keys_wellformed ?s'" by (simp add: keys_wellformed_def)
    with inv show ?thesis ..
  qed
qed

lemma reachable_invariants: "reachable s \<Longrightarrow> seats_invariant s \<and> keys_wellformed s"
proof (induction rule: reachable.induct)
  case reach_empty
  show ?case by (simp add: seats_invariant_def keys_wellformed_def empty_store_def)
next
  case (reach_create s e req)
  then show ?case by (simp add: create_preserves_invariant)
next
  case (reach_join s e req)
  then show ?case by (simp add: join_preserves_invariant)
next
  case (reach_checkout s created req)
  then show ?case using invariant_frame [OF checkout_frame] by blast
next
  case (reach_poll s retrieve e sessionId)
  then show ?case using invariant_frame [OF poll_frame] by blast
next
  case (reach_webhook s verify e req)
  then show ?case by (simp add: post_stripe_webhook_rejects)
qed

lemma reachable_ride_seats_ok:
  assumes "reachable s" and "r \<in> set (rides s)"
  shows "ride_seats_ok s r"
  using reachable_invariants [OF assms(1)] assms(2)
  by (simp add: seats_invariant_def list_all_iff)

text \<open>
  C4, as the code has it. In every store the handlers can produce from the empty store
  (requests handled one after another), every ride has \<open>seats_left \<le> total_seats\<close>
  and as many participant rows as \<open>total_seats - seats_left\<close>, and every ride created
  with a positive number of seats has \<open>0 \<le> seats_left\<close>, whatever other rides the
  store holds. Creation establishes this (\<open>seats_left\<close> starts at \<open>total_seats\<close>, with
  no participants) and every join handled to its end preserves it, whether it takes a
  seat or fails. A ride created with a negative number of seats keeps that negative
  \<open>seats_left\<close>.
\<close>

theorem seats_invariant_reachable:
  assumes "reachable s" and "r \<in> set (rides s)"
  shows "seats_left r \<le> total_seats r \<and>
         int (participant_count s (r_id r)) = total_seats r - seats_left r \<and>
         (0 < total_seats r \<longrightarrow> 0 \<le> seats_left r)"
  using reachable_ride_seats_ok [OF assms] by (auto simp: ride_seats_ok_def)

lemma ex_mixed_reachable: "reachable ex_store_mixed"
proof -
  have "reachable (snd (post_rides_create ex_env empty_store ex_create_req))"
    by (rule reach_create [OF reach_empty])
  then have "reachable ex_store_created" by (simp only: ex_create_eval snd_conv)
  then have "reachable (snd (post_rides_join ex_env ex_store_created ex_join_a))"
    by (rule reach_join)
  then have "reachable ex_store_joined" by (simp only: ex_join_eval snd_conv)
  then have "reachable (snd (post_rides_create ex_env2 ex_store_joined ex_create_negative))"
    by (rule reach_create)
  then show ?thesis by (simp only: ex_create_negative_eval snd_conv)
qed

theorem seats_invariant_reachable_witness:
  "reachable ex_store_mixed \<and>
   rides ex_store_mixed = [ex_ride\<lparr>seats_left := 0\<rparr>, ex_ride_negative] \<and>
   ex_ride\<lparr>seats_left := 0\<rparr> \<in> set (rides ex_store_mixed) \<and>
   0 < total_seats (ex_ride\<lparr>seats_left := 0\<rparr>) \<and>
   total_seats (ex_ride\<lparr>seats_left := 0\<rparr>) = 1 \<and>
   seats_left (ex_ride\<lparr>seats_left := 0\<rparr>) \<le> total_seats (ex_ride\<lparr>seats_left := 0\<rparr>) \<and>
   int (participant_count ex_store_mixed (r_id (ex_ride\<lparr>seats_left := 0\<rparr>))) =
     total_seats (ex_ride\<lparr>seats_left := 0\<rparr>) - seats_left (ex_ride\<lparr>seats_left := 0\<rparr>) \<and>
   0 \<le> seats_left (ex_ride\<lparr>seats_left := 0\<rparr>) \<and>
   participant_count ex_store_mixed 0 = 1 \<and>
   seats_left ex_ride_negative = - 1"
proof -
  have mem: "ex_ride\<lparr>seats_left := 0\<rparr> \<in> set (rides ex_store_mixed)"
    and rides: "rides ex_store_mixed = [ex_ride\<lparr>seats_left := 0\<rparr>, ex_ride_negative]"
    by (simp_all add: ex_store_mixed_def)
  have pos: "0 < total_seats (ex_ride\<lparr>seats_left := 0\<rparr>)"
      "total_seats (ex_ride\<lparr>seats_left := 0\<rparr>) = 1"
      "seats_left ex_ride_negative = - 1"
      "participant_count ex_store_mixed 0 = 1"
    by (simp_all add: ex_ride_def ex_ride_negative_def participant_count_def ex_store_mixed_def
          ex_participant_def)
  from seats_invariant_reachable [OF ex_mixed_reachable mem] ex_mixed_reachable mem rides pos
  show ?thesis by simp
qed

theorem seats_invariant_counterexample:
  "c_totalSeats (ex_create_req\<lparr>c_totalSeats := Some (- 1)\<rparr>) = Some (- 1) \<and>
   \<not> falsy_int (c_totalSeats (ex_create_req\<lparr>c_totalSeats := Some (- 1)\<rparr>)) \<and>
   map total_seats
     (rides (snd (post_rides_create ex_env empty_store (ex_create_req\<lparr>c_totalSeats := Some (- 1)\<rparr>)))) =
     [- 1] \<and>
   map seats_left
     (rides (snd (post_rides_create ex_env empty_store (ex_create_req\<lparr>c_totalSeats := Some (- 1)\<rparr>)))) =
     [- 1]"
  by (simp add: post_rides_create_def empty_store_def ex_create_req_def ex_env_def generate_ex
        store_ops Let_def)

section \<open>Settling the same session again\<close>

lemma select_participant_update_paid:
  assumes "select_participant s rideId userId = Some p"
  shows "select_participant (update_participant_paid s (p_id p) sessionId amount) rideId userId =
           Some (p\<lparr>paid := True, p_stripe_session_id := Some sessionId, amount_paid := amount\<rparr>)"
proof -
  let ?upd = "\<lambda>q. if p_id q = p_id p
                  then q\<lparr>paid := True, p_stripe_session_id := Some sessionId, amount_paid := amount\<rparr>
                  else q"
  let ?match = "\<lambda>q. p_ride_id q = rideId \<and> p_user_id q = userId"
  from assms have eq: "filter ?match (ride_participants s) = [p]"
    by (simp add: select_participant_def single_SomeD)
  have "filter ?match (map ?upd (ride_participants s)) = map ?upd (filter ?match (ride_participants s))"
    by (induction "ride_participants s" arbitrary: s) (auto simp: filter_map comp_def)
  also have "\<dots> = [?upd p]" by (simp only: eq list.map)
  finally show ?thesis
    by (simp add: select_participant_def update_participant_paid_def single_def)
qed

lemma select_participant_settled:
  assumes "select_participant s rideId userId = Some p"
  shows "select_participant (settle_participant e s p rideId userId sessionId intent) rideId userId =
           Some (p\<lparr>paid := True, p_stripe_session_id := Some sessionId,
                   amount_paid := or_else (amount_due p) 0\<rparr>)"
  using select_participant_update_paid [OF assms]
    select_participant_rows [OF settle_participant_rows]
  by simp

lemma update_participant_paid_twice:
  "ride_participants (update_participant_paid (update_participant_paid s pid sessionId amount)
                        pid sessionId amount) =
     ride_participants (update_participant_paid s pid sessionId amount)"
  by (simp add: update_participant_paid_def
        update_twice [where P = "\<lambda>q. p_id q = pid"
                        and f = "\<lambda>q. q\<lparr>paid := True, p_stripe_session_id := Some sessionId,
                                         amount_paid := amount\<rparr>"])

lemma update_payment_completed_twice:
  "payments (update_payment_completed (update_payment_completed s sessionId intent)
               sessionId intent) =
     payments (update_payment_completed s sessionId intent)"
  by (simp add: update_payment_completed_def
        update_twice [where P = "\<lambda>q. pay_stripe_session_id q = Some sessionId"
                        and f = "\<lambda>q. q\<lparr>pay_status := ''completed'',
                                         stripe_payment_intent_id := intent\<rparr>"])

lemma update_participant_paid_rows_cong:
  "ride_participants s' = ride_participants s \<Longrightarrow>
   ride_participants (update_participant_paid s' pid sessionId amount) =
     ride_participants (update_participant_paid s pid sessionId amount)"
  by (simp add: update_participant_paid_def)

lemma update_payment_completed_cong:
  "payments s' = payments s \<Longrightarrow>
   payments (update_payment_completed s' sessionId intent) =
     payments (update_payment_completed s sessionId intent)"
  by (simp add: update_payment_completed_def)

lemma settled_payments_completed:
  "list_all (\<lambda>q. pay_status q = ''completed'')
     (filter (\<lambda>q. pay_stripe_session_id q = Some sessionId)
        (payments (settle_participant e s p rideId userId sessionId intent)))"
  by (auto simp: settle_participant_payments update_payment_completed_def list_all_iff)

lemma settled_participant_paid:
  assumes "select_participant s rideId userId = Some p"
  shows "list_all (\<lambda>q. paid q \<and> amount_paid q = or_else (amount_due q) 0)
           (filter (\<lambda>q. p_ride_id q = rideId \<and> p_user_id q = userId)
              (ride_participants (settle_participant e s p rideId userId sessionId intent)))"
proof -
  from select_participant_settled [OF assms, of e sessionId intent]
  have "filter (\<lambda>q. p_ride_id q = rideId \<and> p_user_id q = userId)
          (ride_participants (settle_participant e s p rideId userId sessionId intent)) =
        [p\<lparr>paid := True, p_stripe_session_id := Some sessionId,
           amount_paid := or_else (amount_due p) 0\<rparr>]"
    by (simp add: select_participant_def single_SomeD)
  then show ?thesis by simp
qed

lemma settle_again:
  fixes e1 e2 :: env and sessionId :: string and intent :: "string option"
  assumes "select_participant s rideId userId = Some p"
  defines "s1 \<equiv> settle_participant e1 s p rideId userId sessionId intent"
  defines "p1 \<equiv> p\<lparr>paid := True, p_stripe_session_id := Some sessionId,
                    amount_paid := or_else (amount_due p) 0\<rparr>"
  defines "s2 \<equiv> settle_participant e2 s1 p1 rideId userId sessionId intent"
  defines "code2 \<equiv> generateRideCode (math_random e2) 6"
  shows "select_participant s1 rideId userId = Some p1"
    and "rides s2 = rides s1"
    and "ride_participants s2 = ride_participants s1"
    and "payments s2 = payments s1"
    and "\<not> notifications_insert_throws e2 \<Longrightarrow> ride_exists s rideId \<Longrightarrow>
         notifications s2 = notifications s1 @
           [\<lparr>n_user_id = userId, n_type = ''payment_received'', n_title = ''Booking Confirmed!'',
             n_body = ''Your ride code: '' @ code2 @ '' - Use this to join the ride chat.'',
             n_ride_id = rideId, n_meta = [(''rideCode'', JStr code2)], n_read = False\<rparr>]"
    and "\<not> history_insert_throws e2 \<Longrightarrow> ride_exists s rideId \<Longrightarrow>
         history s2 = history s1 @
           [\<lparr>h_user_id = userId, h_ride_id = rideId, h_action = ''payment'',
             h_meta = [(''amount'', json_of_int_option (amount_due p)),
                       (''sessionId'', JStr sessionId)]\<rparr>]"
    and "rideId \<in> set (map rc_ride_id (ride_codes s1)) \<Longrightarrow> ride_codes s2 = ride_codes s1"
proof -
  show "select_participant s1 rideId userId = Some p1"
    unfolding s1_def p1_def by (rule select_participant_settled [OF assms(1)])
  show "rides s2 = rides s1" by (simp add: s2_def)
  have id: "p_id p1 = p_id p" and due: "amount_due p1 = amount_due p" by (simp_all add: p1_def)
  have rows1: "ride_participants s1 =
                 ride_participants (update_participant_paid s (p_id p) sessionId
                                      (or_else (amount_due p) 0))"
    unfolding s1_def by (rule settle_participant_rows)
  have "ride_participants s2 =
          ride_participants (update_participant_paid s1 (p_id p) sessionId
                               (or_else (amount_due p) 0))"
    unfolding s2_def by (simp only: settle_participant_rows id due)
  also have "\<dots> = ride_participants
                      (update_participant_paid
                         (update_participant_paid s (p_id p) sessionId (or_else (amount_due p) 0))
                         (p_id p) sessionId (or_else (amount_due p) 0))"
    by (rule update_participant_paid_rows_cong [OF rows1])
  also have "\<dots> = ride_participants s1"
    by (simp only: update_participant_paid_twice rows1)
  finally show "ride_participants s2 = ride_participants s1" .
  have pay1: "payments s1 = payments (update_payment_completed s sessionId intent)"
    unfolding s1_def by (rule settle_participant_payments)
  have "payments s2 = payments (update_payment_completed s1 sessionId intent)"
    unfolding s2_def by (rule settle_participant_payments)
  also have "\<dots> = payments (update_payment_completed
                                 (update_payment_completed s sessionId intent) sessionId intent)"
    by (rule update_payment_completed_cong [OF pay1])
  also have "\<dots> = payments s1"
    by (simp only: update_payment_completed_twice pay1)
  finally show "payments s2 = payments s1" .
  have ex1: "ride_exists s1 rideId = ride_exists s rideId"
    by (rule ride_exists_rides) (simp add: s1_def)
  show "notifications s2 = notifications s1 @
           [\<lparr>n_user_id = userId, n_type = ''payment_received'', n_title = ''Booking Confirmed!'',
             n_body = ''Your ride code: '' @ code2 @ '' - Use this to join the ride chat.'',
             n_ride_id = rideId, n_meta = [(''rideCode'', JStr code2)], n_read = False\<rparr>]"
    if "\<not> notifications_insert_throws e2" and "ride_exists s rideId"
    using that by (simp add: s2_def settle_participant_notifications ex1 code2_def)
  show "history s2 = history s1 @
           [\<lparr>h_user_id = userId, h_ride_id = rideId, h_action = ''payment'',
             h_meta = [(''amount'', json_of_int_option (amount_due p)),
                       (''sessionId'', JStr sessionId)]\<rparr>]"
    if "\<not> history_insert_throws e2" and "ride_exists s rideId"
    using that by (simp add: s2_def settle_participant_history ex1 due)
  show "ride_codes s2 = ride_codes s1" if "rideId \<in> set (map rc_ride_id (ride_codes s1))"
  proof -
    have "ignore_error s1 (upsert_ride_code s1 rideId code2) = s1"
      by (rule upsert_ride_code_refused [OF disjI1 [OF that]])
    then show ?thesis
      by (simp only: s2_def settle_participant_ride_codes code2_def)
  qed
qed

lemma poll_settles:
  assumes "select_participant s rideId userId = Some p"
    and "md_rideId session = Some rideId" and "md_userId session = Some userId"
    and "payment_status session = ''paid''" and "retrieve sessionId = Some session"
  shows "get_stripe_session retrieve e s sessionId =
           (Response 200 (SessionCompleted (Some rideId) (Some userId)),
            settle_participant e s p rideId userId sessionId (payment_intent session))"
  using assms by (simp add: get_stripe_session_def Let_def)

text \<open>
  C1, as the code has it. The poll endpoint does not read the payment's status, so
  settling a session whose payment is already completed is not a no-op. It reports
  success again and runs every write again: the rides, participant and payment tables
  end exactly as the first settlement left them (the payment rows of the session
  completed, the participant paid with \<open>amount_paid\<close> set from \<open>amount_due\<close>), a ride
  that has a ride code row keeps its ride codes as they are (a new code is generated,
  but the store refuses the row and the handler ignores that), and one more
  \<^verbatim>\<open>payment_received\<close> notification, carrying the new code, and one more history entry
  are appended (when their inserts do not fail).
\<close>

theorem repeated_settlement_rewrites:
  assumes "select_participant s rideId userId = Some p"
    and "md_rideId session = Some rideId" and "md_userId session = Some userId"
    and "payment_status session = ''paid''" and "retrieve sessionId = Some session"
    and "s1 = snd (get_stripe_session retrieve e1 s sessionId)"
    and "(r2, s2) = get_stripe_session retrieve e2 s1 sessionId"
  shows "r2 = Response 200 (SessionCompleted (Some rideId) (Some userId)) \<and>
         rides s2 = rides s1 \<and> ride_participants s2 = ride_participants s1 \<and>
         payments s2 = payments s1 \<and>
         list_all (\<lambda>q. pay_status q = ''completed'')
           (filter (\<lambda>q. pay_stripe_session_id q = Some sessionId) (payments s1)) \<and>
         list_all (\<lambda>q. paid q \<and> amount_paid q = or_else (amount_due q) 0)
           (filter (\<lambda>q. p_ride_id q = rideId \<and> p_user_id q = userId) (ride_participants s1)) \<and>
         (\<not> notifications_insert_throws e2 \<and> ride_exists s rideId \<longrightarrow>
            notifications s2 = notifications s1 @
              [\<lparr>n_user_id = userId, n_type = ''payment_received'', n_title = ''Booking Confirmed!'',
                n_body = ''Your ride code: '' @ generateRideCode (math_random e2) 6
                           @ '' - Use this to join the ride chat.'',
                n_ride_id = rideId,
                n_meta = [(''rideCode'', JStr (generateRideCode (math_random e2) 6))],
                n_read = False\<rparr>]) \<and>
         (\<not> history_insert_throws e2 \<and> ride_exists s rideId \<longrightarrow>
            history s2 = history s1 @
              [\<lparr>h_user_id = userId, h_ride_id = rideId, h_action = ''payment'',
                h_meta = [(''amount'', json_of_int_option (amount_due p)),
                          (''sessionId'', JStr sessionId)]\<rparr>]) \<and>
         (rideId \<in> set (map rc_ride_id (ride_codes s1)) \<longrightarrow> ride_codes s2 = ride_codes s1)"
proof -
  let ?intent = "payment_intent session"
  let ?p1 = "p\<lparr>paid := True, p_stripe_session_id := Some sessionId,
               amount_paid := or_else (amount_due p) 0\<rparr>"
  have s1: "s1 = settle_participant e1 s p rideId userId sessionId ?intent"
    using assms(6)
      poll_settles [where retrieve = retrieve and sessionId = sessionId and e = e1,
                    OF assms(1-5)]
    by simp
  have sel1: "select_participant s1 rideId userId = Some ?p1"
    unfolding s1 by (rule settle_again(1) [OF assms(1)])
  have second: "s2 = settle_participant e2 s1 ?p1 rideId userId sessionId ?intent"
    and r2: "r2 = Response 200 (SessionCompleted (Some rideId) (Some userId))"
    using assms(7)
      poll_settles [where retrieve = retrieve and sessionId = sessionId and e = e2,
                    OF sel1 assms(2-5)]
    by simp_all
  have completed: "list_all (\<lambda>q. pay_status q = ''completed'')
           (filter (\<lambda>q. pay_stripe_session_id q = Some sessionId) (payments s1))"
    unfolding s1 by (rule settled_payments_completed)
  have paid: "list_all (\<lambda>q. paid q \<and> amount_paid q = or_else (amount_due q) 0)
           (filter (\<lambda>q. p_ride_id q = rideId \<and> p_user_id q = userId) (ride_participants s1))"
    unfolding s1 by (rule settled_participant_paid [OF assms(1)])
  have same: "rides s2 = rides s1" "ride_participants s2 = ride_participants s1"
      "payments s2 = payments s1"
    unfolding second s1 by (rule settle_again(2-4) [OF assms(1)])+
  have notified: "notifications s2 = notifications s1 @
              [\<lparr>n_user_id = userId, n_type = ''payment_received'', n_title = ''Booking Confirmed!'',
                n_body = ''Your ride code: '' @ generateRideCode (math_random e2) 6
                           @ '' - Use this to join the ride chat.'',
                n_ride_id = rideId,
                n_meta = [(''rideCode'', JStr (generateRideCode (math_random e2) 6))],
                n_read = False\<rparr>]"
    if "\<not> notifications_insert_throws e2" and "ride_exists s rideId"
    unfolding second s1 by (rule settle_again(5) [OF assms(1) that])
  have logged: "history s2 = history s1 @
              [\<lparr>h_user_id = userId, h_ride_id = rideId, h_action = ''payment'',
                h_meta = [(''amount'', json_of_int_option (amount_due p)),
                          (''sessionId'', JStr sessionId)]\<rparr>]"
    if "\<not> history_insert_throws e2" and "ride_exists s rideId"
    unfolding second s1 by (rule settle_again(6) [OF assms(1) that])
  have kept: "ride_codes s2 = ride_codes s1"
    if "rideId \<in> set (map rc_ride_id (ride_codes s1))"
    using that unfolding second s1 by (rule settle_again(7) [OF assms(1)])
  from r2 same completed paid notified logged kept show ?thesis by blast
qed

theorem repeated_settlement_rewrites_witness:
  "select_participant ex_store_pending 0 10 = Some (ex_participant 2 10) \<and>
   md_rideId ex_session = Some 0 \<and> md_userId ex_session = Some 10 \<and>
   payment_status ex_session = ''paid'' \<and> ex_retrieve ''cs_1'' = Some ex_session \<and>
   ex_store_settled = snd (get_stripe_session ex_retrieve ex_env ex_store_pending ''cs_1'') \<and>
   (Response 200 (SessionCompleted (Some 0) (Some 10)), ex_store_resettled) =
     get_stripe_session ex_retrieve ex_env2 ex_store_settled ''cs_1'' \<and>
   \<not> notifications_insert_throws ex_env2 \<and> \<not> history_insert_throws ex_env2 \<and>
   ride_exists ex_store_pending 0 \<and>
   0 \<in> set (map rc_ride_id (ride_codes ex_store_settled)) \<and>
   rides ex_store_resettled = rides ex_store_settled \<and>
   ride_participants ex_store_resettled = ride_participants ex_store_settled \<and>
   payments ex_store_resettled = payments ex_store_settled \<and>
   notifications ex_store_resettled = notifications ex_store_settled @ [ex_notif_paid ''SSSSSS''] \<and>
   history ex_store_resettled = history ex_store_settled @ [ex_history_paid] \<and>
   ride_codes ex_store_resettled = ride_codes ex_store_settled"
proof -
  have first: "ex_store_settled = snd (get_stripe_session ex_retrieve ex_env ex_store_pending ''cs_1'')"
    by (simp only: ex_settle_eval snd_conv)
  have second: "(Response 200 (SessionCompleted (Some 0) (Some 10)), ex_store_resettled) =
                  get_stripe_session ex_retrieve ex_env2 ex_store_settled ''cs_1''"
    by (simp only: ex_settle_again_eval)
  have side: "\<not> notifications_insert_throws ex_env2" "\<not> history_insert_throws ex_env2"
      "ride_exists ex_store_pending 0"
      "0 \<in> set (map rc_ride_id (ride_codes ex_store_settled))"
      "generateRideCode (math_random ex_env2) 6 = ''SSSSSS''"
    by (simp_all add: ex_env2_def generate_half_6 ride_exists_def ex_store_settled_def
          ex_store_pending_def ex_store_joined_def ex_ride_def)
  have rows: "\<lparr>n_user_id = 10, n_type = ''payment_received'', n_title = ''Booking Confirmed!'',
                n_body = ''Your ride code: '' @ ''SSSSSS'' @ '' - Use this to join the ride chat.'',
                n_ride_id = 0, n_meta = [(''rideCode'', JStr ''SSSSSS'')],
                n_read = False\<rparr> = ex_notif_paid ''SSSSSS''"
      "\<lparr>h_user_id = 10, h_ride_id = 0, h_action = ''payment'',
        h_meta = [(''amount'', json_of_int_option (amount_due (ex_participant 2 10))),
                  (''sessionId'', JStr ''cs_1'')]\<rparr> = ex_history_paid"
    by (simp_all add: ex_notif_paid_def ex_history_paid_def ex_participant_def
          json_of_int_option_def)
  from repeated_settlement_rewrites
         [where retrieve = ex_retrieve and ?e1.0 = ex_env and ?e2.0 = ex_env2
            and s = ex_store_pending and ?s1.0 = ex_store_settled and ?s2.0 = ex_store_resettled,
          OF ex_select_participant ex_session_facts first second]
  have concl: "rides ex_store_resettled = rides ex_store_settled"
      "ride_participants ex_store_resettled = ride_participants ex_store_settled"
      "payments ex_store_resettled = payments ex_store_settled"
      "notifications ex_store_resettled = notifications ex_store_settled @ [ex_notif_paid ''SSSSSS'']"
      "history ex_store_resettled = history ex_store_settled @ [ex_history_paid]"
      "ride_codes ex_store_resettled = ride_codes ex_store_settled"
    using side rows by simp_all
  from ex_select_participant ex_session_facts first second side(1-4) concl
  show ?thesis by simp
qed

theorem repeated_settlement_counterexample:
  "map pay_stripe_session_id (payments ex_store_settled) = [Some ''cs_1''] \<and>
   map pay_status (payments ex_store_settled) = [''completed''] \<and>
   get_stripe_session ex_retrieve ex_env2 ex_store_settled ''cs_1'' =
     (Response 200 (SessionCompleted (Some 0) (Some 10)), ex_store_resettled) \<and>
   notifications ex_store_settled =
     [ex_notif_created, ex_notif_joined 10, ex_notif_paid ''AAAAAA''] \<and>
   notifications ex_store_resettled =
     [ex_notif_created, ex_notif_joined 10, ex_notif_paid ''AAAAAA'', ex_notif_paid ''SSSSSS''] \<and>
   length (history ex_store_settled) = 1 \<and>
   length (history ex_store_resettled) = 2"
  using ex_settle_again_eval
  by (simp add: ex_store_settled_def ex_store_resettled_def ex_store_pending_def
        ex_store_joined_def ex_payment_def)

end
